theory Spec2Isabelle
  imports Main "HOL-Library.Monad_Syntax"
begin

chapter \<open>SASL AWS_MSK_IAM: SigV4 signing and the credential store\<close>

text \<open>
  A shallow embedding of \<^verbatim>\<open>src/rdkafka_aws.c\<close> (the signing helpers) and of the
  SASL AWS_MSK_IAM provider (credential handle, refresh, per-connection state machine).
  C strings are \<^typ>\<open>string\<close>: a \<^typ>\<open>char\<close> is one byte, so a digest or an HMAC key
  is a string as well. A pointer that the source tests against \<^verbatim>\<open>NULL\<close> is an
  \<^typ>\<open>'a option\<close>.
\<close>

section \<open>Bytes, bits and hexadecimal text\<close>

text \<open>A 32-bit word is the list of its bits, least significant bit first.\<close>

type_synonym w32 = "bool list"

fun bits_of_char :: "char \<Rightarrow> bool list" where
  "bits_of_char (Char b0 b1 b2 b3 b4 b5 b6 b7) = [b0, b1, b2, b3, b4, b5, b6, b7]"

fun char_of_bits :: "bool list \<Rightarrow> char" where
  "char_of_bits (b0 # b1 # b2 # b3 # b4 # b5 # b6 # b7 # r) = Char b0 b1 b2 b3 b4 b5 b6 b7"
| "char_of_bits _ = CHR 0x00"

fun int_bits :: "nat \<Rightarrow> int \<Rightarrow> bool list" where
  "int_bits 0 k = []"
| "int_bits (Suc n) k = (k mod 2 = 1) # int_bits n (k div 2)"

fun xor32 :: "w32 \<Rightarrow> w32 \<Rightarrow> w32" where
  "xor32 (a # as) (b # bs) = (a \<noteq> b) # xor32 as bs"
| "xor32 _ _ = []"

fun and32 :: "w32 \<Rightarrow> w32 \<Rightarrow> w32" where
  "and32 (a # as) (b # bs) = (a \<and> b) # and32 as bs"
| "and32 _ _ = []"

fun not32 :: "w32 \<Rightarrow> w32" where
  "not32 (a # as) = (\<not> a) # not32 as"
| "not32 [] = []"

text \<open>Ripple-carry addition; the carry out of the last bit is dropped (addition modulo \<open>2^32\<close>).\<close>

fun add_carry :: "bool \<Rightarrow> w32 \<Rightarrow> w32 \<Rightarrow> w32" where
  "add_carry c (a # as) (b # bs) =
     ((a \<noteq> b) \<noteq> c) # add_carry ((a \<and> b) \<or> (c \<and> (a \<noteq> b))) as bs"
| "add_carry c _ _ = []"

definition add32 :: "w32 \<Rightarrow> w32 \<Rightarrow> w32" where
  "add32 x y = add_carry False x y"

definition rotr32 :: "nat \<Rightarrow> w32 \<Rightarrow> w32" where
  "rotr32 n x = drop n x @ take n x"

definition shr32 :: "nat \<Rightarrow> w32 \<Rightarrow> w32" where
  "shr32 n x = drop n x @ replicate n False"

text \<open>The bytes of a bit list, most significant byte first.\<close>

fun be_bytes :: "nat \<Rightarrow> bool list \<Rightarrow> string" where
  "be_bytes 0 bs = []"
| "be_bytes (Suc n) bs = be_bytes n (drop 8 bs) @ [char_of_bits bs]"

text \<open>\<^verbatim>\<open>sprintf(&buf[i * 2], "%02x", md_value[i])\<close> over a byte array.\<close>

definition hexdigit :: "nat \<Rightarrow> char" where
  "hexdigit n = ''0123456789abcdef'' ! n"

definition hex_byte :: "char \<Rightarrow> string" where
  "hex_byte c = [hexdigit (of_char c div 16), hexdigit (of_char c mod 16)]"

definition hexstr :: "string \<Rightarrow> string" where
  "hexstr bs = concat (map hex_byte bs)"

text \<open>\<^verbatim>\<open>rd_snprintf(buf, size, fmt, ...)\<close>: at most \<open>size - 1\<close> characters of the formatted
  text are stored; with \<open>size = 0\<close> the buffer is left as it is.\<close>

definition rd_snprintf :: "string \<Rightarrow> nat \<Rightarrow> string \<Rightarrow> string" where
  "rd_snprintf buf sz s = (if sz = 0 then buf else take (sz - 1) s)"

section \<open>SHA-256 and HMAC (OpenSSL)\<close>

definition Ch :: "w32 \<Rightarrow> w32 \<Rightarrow> w32 \<Rightarrow> w32" where
  "Ch x y z = xor32 (and32 x y) (and32 (not32 x) z)"

definition Maj :: "w32 \<Rightarrow> w32 \<Rightarrow> w32 \<Rightarrow> w32" where
  "Maj x y z = xor32 (xor32 (and32 x y) (and32 x z)) (and32 y z)"

definition Sigma0 :: "w32 \<Rightarrow> w32" where
  "Sigma0 x = xor32 (xor32 (rotr32 2 x) (rotr32 13 x)) (rotr32 22 x)"

definition Sigma1 :: "w32 \<Rightarrow> w32" where
  "Sigma1 x = xor32 (xor32 (rotr32 6 x) (rotr32 11 x)) (rotr32 25 x)"

definition sigma0 :: "w32 \<Rightarrow> w32" where
  "sigma0 x = xor32 (xor32 (rotr32 7 x) (rotr32 18 x)) (shr32 3 x)"

definition sigma1 :: "w32 \<Rightarrow> w32" where
  "sigma1 x = xor32 (xor32 (rotr32 17 x) (rotr32 19 x)) (shr32 10 x)"

text \<open>The round constants: the first 32 bits of the fractional parts of the cube roots of
  the first 64 primes.\<close>

definition K256 :: "w32 list" where
  "K256 = map (int_bits 32)
    [
     1116352408, 1899447441, 3049323471, 3921009573, 961987163, 1508970993,
     2453635748, 2870763221, 3624381080, 310598401, 607225278, 1426881987,
     1925078388, 2162078206, 2614888103, 3248222580, 3835390401, 4022224774,
     264347078, 604807628, 770255983, 1249150122, 1555081692, 1996064986,
     2554220882, 2821834349, 2952996808, 3210313671, 3336571891, 3584528711,
     113926993, 338241895, 666307205, 773529912, 1294757372, 1396182291,
     1695183700, 1986661051, 2177026350, 2456956037, 2730485921, 2820302411,
     3259730800, 3345764771, 3516065817, 3600352804, 4094571909, 275423344,
     430227734, 506948616, 659060556, 883997877, 958139571, 1322822218,
     1537002063, 1747873779, 1955562222, 2024104815, 2227730452, 2361852424,
     2428436474, 2756734187, 3204031479, 3329325298]"

type_synonym sha_state = "w32 \<times> w32 \<times> w32 \<times> w32 \<times> w32 \<times> w32 \<times> w32 \<times> w32"

definition H256 :: sha_state where
  "H256 = (int_bits 32 0x6a09e667, int_bits 32 0xbb67ae85, int_bits 32 0x3c6ef372,
           int_bits 32 0xa54ff53a, int_bits 32 0x510e527f, int_bits 32 0x9b05688c,
           int_bits 32 0x1f83d9ab, int_bits 32 0x5be0cd19)"

text \<open>The sixteen big-endian words of a 64-byte block.\<close>

fun be32 :: "string \<Rightarrow> w32 list" where
  "be32 (c0 # c1 # c2 # c3 # r) =
     (bits_of_char c3 @ bits_of_char c2 @ bits_of_char c1 @ bits_of_char c0) # be32 r"
| "be32 _ = []"

text \<open>The message schedule, produced from a sliding window of the last sixteen words.\<close>

fun schedule :: "nat \<Rightarrow> w32 list \<Rightarrow> w32 list" where
  "schedule (Suc n) (w0 # w1 # w2 # w3 # w4 # w5 # w6 # w7 # w8 # w9 # w10 # w11 # w12 # w13 # w14 # w15 # r) =
     w0 # schedule n [w1, w2, w3, w4, w5, w6, w7, w8, w9, w10, w11, w12, w13, w14, w15,
                      add32 (add32 (add32 (sigma1 w14) w9) (sigma0 w1)) w0]"
| "schedule _ _ = []"

fun sha_round2 :: "w32 \<Rightarrow> w32 \<Rightarrow> sha_state \<Rightarrow> sha_state" where
  "sha_round2 t1 t2 (a, b, c, d, e, f, g, h) = (add32 t1 t2, a, b, c, add32 d t1, e, f, g)"

fun sha_round :: "w32 \<Rightarrow> w32 \<Rightarrow> sha_state \<Rightarrow> sha_state" where
  "sha_round k w (a, b, c, d, e, f, g, h) =
     sha_round2 (add32 (add32 (add32 (add32 h (Sigma1 e)) (Ch e f g)) k) w)
                (add32 (Sigma0 a) (Maj a b c)) (a, b, c, d, e, f, g, h)"

fun rounds :: "w32 list \<Rightarrow> w32 list \<Rightarrow> sha_state \<Rightarrow> sha_state" where
  "rounds (k # ks) (w # ws) s = rounds ks ws (sha_round k w s)"
| "rounds _ _ s = s"

fun add_state :: "sha_state \<Rightarrow> sha_state \<Rightarrow> sha_state" where
  "add_state (a, b, c, d, e, f, g, h) (a', b', c', d', e', f', g', h') =
     (add32 a a', add32 b b', add32 c c', add32 d d',
      add32 e e', add32 f f', add32 g g', add32 h h')"

definition compress :: "sha_state \<Rightarrow> string \<Rightarrow> sha_state" where
  "compress s blk = add_state s (rounds K256 (schedule 64 (be32 blk)) s)"

function blocks :: "sha_state \<Rightarrow> string \<Rightarrow> sha_state" where
  "blocks s bs = (if bs = [] then s else blocks (compress s (take 64 bs)) (drop 64 bs))"
  by pat_completeness auto
termination
  by (relation "measure (\<lambda>(s, bs). length bs)") auto

text \<open>Padding: the byte \<open>0x80\<close>, zero bytes up to 56 modulo 64, the bit length in 64 bits.\<close>

definition pad :: "string \<Rightarrow> string" where
  "pad m = m @ [CHR 0x80] @ replicate ((119 - length m mod 64) mod 64) (CHR 0x00)
             @ be_bytes 8 (int_bits 64 (8 * int (length m)))"

fun digest_bytes :: "sha_state \<Rightarrow> string" where
  "digest_bytes (a, b, c, d, e, f, g, h) =
     be_bytes 4 a @ be_bytes 4 b @ be_bytes 4 c @ be_bytes 4 d @
     be_bytes 4 e @ be_bytes 4 f @ be_bytes 4 g @ be_bytes 4 h"

text \<open>Modelled from the spec: OpenSSL's SHA-256 (reached through \<^verbatim>\<open>EVP_DigestInit_ex\<close>,
  \<^verbatim>\<open>EVP_DigestUpdate\<close>, \<^verbatim>\<open>EVP_DigestFinal_ex\<close>) is not part of the sources. The spec
  names it \<open>sha256(bytes) -> 32 bytes\<close> (section 4.A); the function is the one of FIPS 180-4.\<close>

definition SHA256 :: "string \<Rightarrow> string" where
  "SHA256 m = digest_bytes (blocks H256 (pad m))"

fun xor_char :: "char \<Rightarrow> char \<Rightarrow> char" where
  "xor_char (Char a0 a1 a2 a3 a4 a5 a6 a7) (Char b0 b1 b2 b3 b4 b5 b6 b7) =
     Char (a0 \<noteq> b0) (a1 \<noteq> b1) (a2 \<noteq> b2) (a3 \<noteq> b3)
          (a4 \<noteq> b4) (a5 \<noteq> b5) (a6 \<noteq> b6) (a7 \<noteq> b7)"

definition hmac_block_key :: "string \<Rightarrow> string" where
  "hmac_block_key key =
     (if 64 < length key then SHA256 key @ replicate 32 (CHR 0x00)
      else key @ replicate (64 - length key) (CHR 0x00))"

text \<open>Modelled from the spec: OpenSSL's \<^verbatim>\<open>HMAC(EVP_sha256(), key, keylen, data, datalen, ...)\<close>
  is not part of the sources. The spec names it \<open>hmac_sha256(key, data) -> 32 bytes\<close>
  (section 4.A); the function is HMAC of RFC 2104 over SHA-256, block size 64.\<close>

definition HMAC_SHA256 :: "string \<Rightarrow> string \<Rightarrow> string" where
  "HMAC_SHA256 key data =
     SHA256 (map (xor_char (CHR 0x5c)) (hmac_block_key key)
             @ SHA256 (map (xor_char (CHR 0x36)) (hmac_block_key key) @ data))"

text \<open>\<^verbatim>\<open>const EVP_MD *md\<close>: the only digest the callers look up is
  \<^verbatim>\<open>EVP_get_digestbyname("SHA256")\<close>.\<close>

datatype EVP_MD = EVP_sha256

fun EVP_Digest :: "EVP_MD \<Rightarrow> string \<Rightarrow> string" where
  "EVP_Digest EVP_sha256 m = SHA256 m"

section \<open>\<^verbatim>\<open>rdkafka_aws.c\<close>: URI encoding\<close>

text \<open>Modelled from the spec: \<^verbatim>\<open>curl_easy_escape\<close> (libcurl) is not part of the sources.
  The spec (section 4.A, \<open>uri_encode\<close>) has it percent-encode every byte outside the unreserved
  set \<open>A-Z a-z 0-9 - _ . ~\<close>, with uppercase hexadecimal digits in the escapes. The three
  definitions that follow are that function: the digits, the test for an unreserved byte
  (digits, lower case, upper case and the four signs, by character code), and the loop.\<close>

definition hexdigit_upper :: "nat \<Rightarrow> char" where
  "hexdigit_upper n = ''0123456789ABCDEF'' ! n"

definition Curl_isunreserved :: "char \<Rightarrow> bool" where
  "Curl_isunreserved c \<longleftrightarrow>
     (let n = (of_char c :: nat) in
        (48 \<le> n \<and> n \<le> 57) \<or> (97 \<le> n \<and> n \<le> 122) \<or> (65 \<le> n \<and> n \<le> 90)
        \<or> c = CHR ''-'' \<or> c = CHR ''.'' \<or> c = CHR ''_'' \<or> c = CHR ''~'')"

text \<open>The loop of \<^verbatim>\<open>curl_easy_escape\<close>, byte by byte: an unreserved byte is copied, any
  other is written as \<^verbatim>\<open>"%%%02X"\<close> prints it.\<close>

fun curl_easy_escape :: "string \<Rightarrow> string" where
  "curl_easy_escape [] = []"
| "curl_easy_escape (c # cs) =
     (if Curl_isunreserved c then [c]
      else [CHR ''%'', hexdigit_upper (of_char c div 16), hexdigit_upper (of_char c mod 16)])
     @ curl_easy_escape cs"

text \<open>\<^verbatim>\<open>rd_kafka_aws_uri_encode\<close>: \<open>curl\<close> tells whether \<^verbatim>\<open>curl_easy_init()\<close> returned a
  handle; without one the source returns \<^verbatim>\<open>NULL\<close>.\<close>

definition rd_kafka_aws_uri_encode :: "bool \<Rightarrow> string \<Rightarrow> string option" where
  "rd_kafka_aws_uri_encode curl inp = (if curl then Some (curl_easy_escape inp) else None)"

section \<open>\<^verbatim>\<open>rdkafka_aws.c\<close>: canonicalisation and signing\<close>

definition rd_kafka_aws_hmac_sha256 :: "string \<Rightarrow> string \<Rightarrow> string" where
  "rd_kafka_aws_hmac_sha256 key data = HMAC_SHA256 key data"

definition rd_kafka_aws_construct_amz_date :: "string \<Rightarrow> string \<Rightarrow> string" where
  "rd_kafka_aws_construct_amz_date ymd hms =
     rd_snprintf [] (length ymd + length hms + length ''TZ'' + 1) (ymd @ ''T'' @ hms @ ''Z'')"

definition rd_kafka_aws_construct_authorization_header ::
  "string \<Rightarrow> string \<Rightarrow> string \<Rightarrow> string \<Rightarrow> string \<Rightarrow> string" where
  "rd_kafka_aws_construct_authorization_header algorithm aws_access_key_id credential_scope
       signed_headers signature =
     algorithm @ '' Credential='' @ aws_access_key_id @ ''/'' @ credential_scope
     @ '', SignedHeaders='' @ signed_headers @ '', Signature='' @ signature"

definition rd_kafka_aws_construct_credential_scope :: "string \<Rightarrow> string \<Rightarrow> string \<Rightarrow> string" where
  "rd_kafka_aws_construct_credential_scope ymd aws_region aws_service =
     rd_snprintf []
       (length ymd + length aws_region + length aws_service + length ''///aws4_request'' + 1)
       (ymd @ ''/'' @ aws_region @ ''/'' @ aws_service @ ''/aws4_request'')"

text \<open>A \<^verbatim>\<open>NULL\<close> from \<^verbatim>\<open>rd_kafka_aws_uri_encode\<close> would reach
  \<^verbatim>\<open>str_builder_add_str\<close>, which is outside the sources: the model stops there with
  \<open>None\<close>.\<close>

definition rd_kafka_aws_build_sasl_canonical_querystring ::
  "bool \<Rightarrow> string \<Rightarrow> string \<Rightarrow> string \<Rightarrow> string \<Rightarrow> string \<Rightarrow> string \<Rightarrow> string option
   \<Rightarrow> string option" where
  "rd_kafka_aws_build_sasl_canonical_querystring curl action aws_access_key_id aws_region ymd hms
       aws_service aws_security_token =
     do {
       uri_action \<leftarrow> rd_kafka_aws_uri_encode curl action;
       uri_credential \<leftarrow> rd_kafka_aws_uri_encode curl
          (aws_access_key_id @ ''/''
           @ rd_kafka_aws_construct_credential_scope ymd aws_region aws_service);
       uri_amz_date \<leftarrow> rd_kafka_aws_uri_encode curl (rd_kafka_aws_construct_amz_date ymd hms);
       security_token \<leftarrow>
         (case aws_security_token of
            None \<Rightarrow> Some []
          | Some tok \<Rightarrow>
              do {
                uri_amz_security_token \<leftarrow> rd_kafka_aws_uri_encode curl tok;
                Some (''X-Amz-Security-Token='' @ uri_amz_security_token @ ''&'')
              });
       Some (''Action='' @ uri_action @ ''&'' @ ''X-Amz-Algorithm=AWS4-HMAC-SHA256&''
             @ ''X-Amz-Credential='' @ uri_credential @ ''&''
             @ ''X-Amz-Date='' @ uri_amz_date @ ''&''
             @ ''X-Amz-Expires=900&''
             @ security_token
             @ ''X-Amz-SignedHeaders=host'')
     }"

text \<open>The hexadecimal loop runs over the \<open>md_len\<close> bytes the digest returns and the buffer
  holds 64 characters: for SHA-256 that is the whole digest.\<close>

definition rd_kafka_aws_build_canonical_request ::
  "string \<Rightarrow> string \<Rightarrow> string \<Rightarrow> string \<Rightarrow> string \<Rightarrow> EVP_MD \<Rightarrow> string" where
  "rd_kafka_aws_build_canonical_request method canonical_query_string canonical_headers
       signed_headers request_parameters md =
     method @ [CHR 0x0A] @ ''/'' @ [CHR 0x0A] @ canonical_query_string @ [CHR 0x0A]
     @ canonical_headers @ [CHR 0x0A] @ signed_headers @ [CHR 0x0A]
     @ hexstr (EVP_Digest md request_parameters)"

definition rd_kafka_aws_build_string_to_sign ::
  "string \<Rightarrow> string \<Rightarrow> string \<Rightarrow> string \<Rightarrow> EVP_MD \<Rightarrow> string" where
  "rd_kafka_aws_build_string_to_sign algorithm credential_scope amz_date canonical_request md =
     algorithm @ [CHR 0x0A] @ amz_date @ [CHR 0x0A] @ credential_scope @ [CHR 0x0A]
     @ hexstr (EVP_Digest md canonical_request)"

definition rd_kafka_aws_build_signature ::
  "string \<Rightarrow> string \<Rightarrow> string \<Rightarrow> string \<Rightarrow> string \<Rightarrow> string" where
  "rd_kafka_aws_build_signature aws_secret_access_key aws_region ymd aws_service string_to_sign =
     hexstr
       (rd_kafka_aws_hmac_sha256
          (rd_kafka_aws_hmac_sha256
             (rd_kafka_aws_hmac_sha256
                (rd_kafka_aws_hmac_sha256
                   (rd_kafka_aws_hmac_sha256 (''AWS4'' @ aws_secret_access_key) ymd)
                   aws_region)
                aws_service)
             ''aws4_request'')
          string_to_sign)"

definition rd_kafka_aws_build_sasl_payload ::
  "string \<Rightarrow> string \<Rightarrow> string \<Rightarrow> string \<Rightarrow> string \<Rightarrow> string option \<Rightarrow> string \<Rightarrow> string
   \<Rightarrow> string \<Rightarrow> string \<Rightarrow> string \<Rightarrow> string \<Rightarrow> string \<Rightarrow> string \<Rightarrow> EVP_MD \<Rightarrow> string" where
  \<open>rd_kafka_aws_build_sasl_payload ymd hms host aws_access_key_id aws_secret_access_key
       aws_security_token aws_region aws_service method algorithm canonical_headers
       canonical_querystring signed_headers request_parameters md =
     ''{"version":"2020_10_22",'' @ ''"host":"'' @ host @ ''",''
     @ ''"user-agent":"librdkafka",''
     @ ''"action":"'' @ ''kafka-cluster:Connect'' @ ''",''
     @ ''"x-amz-algorithm":"AWS4-HMAC-SHA256",''
     @ ''"x-amz-credential":"'' @ aws_access_key_id @ ''/''
     @ rd_kafka_aws_construct_credential_scope ymd aws_region aws_service @ ''",''
     @ ''"x-amz-date":"'' @ rd_kafka_aws_construct_amz_date ymd hms @ ''",''
     @ (case aws_security_token of
          None \<Rightarrow> []
        | Some tok \<Rightarrow> ''"x-amz-security-token":"'' @ tok @ ''",'')
     @ ''"x-amz-signedheaders":"host",''
     @ ''"x-amz-expires":"900",''
     @ ''"x-amz-signature":"''
     @ rd_kafka_aws_build_signature aws_secret_access_key aws_region ymd aws_service
         (rd_kafka_aws_build_string_to_sign algorithm
            (rd_kafka_aws_construct_credential_scope ymd aws_region aws_service)
            (rd_kafka_aws_construct_amz_date ymd hms)
            (rd_kafka_aws_build_canonical_request method canonical_querystring canonical_headers
               signed_headers request_parameters md)
            md)
     @ ''"}''\<close>

section \<open>Machine integers and \<^verbatim>\<open>printf\<close> conversions\<close>

text \<open>\<^verbatim>\<open>int64_t\<close> (\<^verbatim>\<open>rd_ts_t\<close>, \<^verbatim>\<open>time_t\<close>), \<^verbatim>\<open>unsigned long\<close> (64 bits, LP64) and
  \<^verbatim>\<open>int\<close> values are integers; the wrap-around of each width is written out.\<close>

definition s64 :: "int \<Rightarrow> int" where
  "s64 x = (x + 2 ^ 63) mod 2 ^ 64 - 2 ^ 63"

definition u64 :: "int \<Rightarrow> int" where
  "u64 x = x mod 2 ^ 64"


text \<open>C division truncates towards zero.\<close>

definition c_div :: "int \<Rightarrow> int \<Rightarrow> int" where
  "c_div a b = sgn a * sgn b * (\<bar>a\<bar> div \<bar>b\<bar>)"

function dec_nat :: "nat \<Rightarrow> string" where
  "dec_nat n = (if n < 10 then [''0123456789'' ! n]
                else dec_nat (n div 10) @ [''0123456789'' ! (n mod 10)])"
  by pat_completeness auto
termination
  by (relation "measure id") auto

text \<open>The conversion \<^verbatim>\<open>"%" PRId64\<close>.\<close>

definition PRId64 :: "int \<Rightarrow> string" where
  "PRId64 i = (if i < 0 then CHR ''-'' # dec_nat (nat (- i)) else dec_nat (nat i))"


section \<open>The SASL AWS_MSK_IAM provider: data\<close>

datatype rd_kafka_resp_err =
    RD_KAFKA_RESP_ERR_NO_ERROR
  | RD_KAFKA_RESP_ERR_UNKNOWN
  | RD_KAFKA_RESP_ERR__INVALID_ARG
  | RD_KAFKA_RESP_ERR__STATE
  | RD_KAFKA_RESP_ERR__AUTHENTICATION

datatype rd_kafka_sasl_provider = rd_kafka_sasl_aws_msk_iam_provider | other_sasl_provider

text \<open>What stops the program: a failed \<^verbatim>\<open>rd_assert\<close>, or a \<^verbatim>\<open>NULL\<close> pointer handed to code
  that reads through it.\<close>

datatype crash = Assertion_failed | Null_pointer

text \<open>The per-client handle. \<open>credential_refresh_tmr\<close> holds the interval (microseconds) the
  timer was last started with; \<^verbatim>\<open>rd_kafka_timer_start\<close> itself is outside the sources.\<close>

record rd_kafka_sasl_aws_msk_iam_handle =
  h_aws_access_key_id :: "string option"
  h_aws_secret_access_key :: "string option"
  h_aws_region :: "string option"
  h_aws_security_token :: "string option"
  h_errstr :: "string option"
  credential_refresh_tmr :: "int option"

text \<open>Calls that leave the provider, in the order they are made.\<close>

datatype rk_event =
    Rwlock_wrlock
  | Rwlock_wrunlock
  | Rwlock_rdlock
  | Rwlock_rdunlock
  | Timer_start int
  | All_brokers_wakeup string
  | Op_err rd_kafka_resp_err string

text \<open>The client instance \<^verbatim>\<open>rd_kafka_t\<close>, as far as the provider reads and writes it.\<close>

record rd_kafka =
  rk_sasl_provider :: rd_kafka_sasl_provider
  rk_enable_use_sts :: bool
  rk_duration_sec :: int
  rk_conf_aws_region :: string
  rk_sasl_handle :: "rd_kafka_sasl_aws_msk_iam_handle option"
  rk_events :: "rk_event list"

datatype rd_kafka_sasl_aws_msk_iam_fsm_state =
    RD_KAFKA_SASL_AWS_MSK_IAM_SEND_CLIENT_FIRST_MESSAGE
  | RD_KAFKA_SASL_AWS_MSK_IAM_RECEIVE_SERVER_RESPONSE

record rd_kafka_sasl_aws_msk_iam_state =
  state :: rd_kafka_sasl_aws_msk_iam_fsm_state
  md :: "EVP_MD option"
  hostname :: "string option"
  st_aws_access_key_id :: "string option"
  st_aws_secret_access_key :: "string option"
  st_aws_region :: "string option"
  st_aws_security_token :: "string option"

text \<open>The transport of one connection: the authentication state, whether
  \<^verbatim>\<open>rd_kafka_sasl_auth_done\<close> was called, and the frames given to \<^verbatim>\<open>rd_kafka_sasl_send\<close>.\<close>

record rd_kafka_transport =
  rktrans_sasl_state :: "rd_kafka_sasl_aws_msk_iam_state option"
  rktrans_auth_done :: bool
  rktrans_sent :: "string list"

text \<open>\<^verbatim>\<open>rd_chariov_t\<close>: \<open>iov_ptr\<close> is the text \<^verbatim>\<open>"%s"\<close> reads at \<^verbatim>\<open>ptr\<close>, \<open>iov_size\<close> the
  field \<^verbatim>\<open>size\<close>.\<close>

record rd_chariov =
  iov_ptr :: string
  iov_size :: nat

text \<open>What the connection code takes from outside: whether \<^verbatim>\<open>curl_easy_init\<close> gives a
  handle, the UTC date and time \<^verbatim>\<open>strftime\<close> renders, and \<^verbatim>\<open>rd_kafka_sasl_send\<close>, which
  for a frame and the error text so far gives its return value and the error text it leaves.\<close>

record sasl_env =
  curl_ok :: bool
  utc_ymd :: string
  utc_hms :: string
  sasl_send :: "string \<Rightarrow> string \<Rightarrow> int \<times> string"

definition rd_kafka_sasl_auth_done :: "rd_kafka_transport \<Rightarrow> rd_kafka_transport" where
  "rd_kafka_sasl_auth_done rktrans = rktrans\<lparr>rktrans_auth_done := True\<rparr>"

definition rk_log :: "rk_event list \<Rightarrow> rd_kafka \<Rightarrow> rd_kafka" where
  "rk_log evs rk = rk\<lparr>rk_events := rk_events rk @ evs\<rparr>"

section \<open>The credential store\<close>

text \<open>\<open>now_wallclock\<close> is the value \<^verbatim>\<open>rd_uclock()\<close> returns (microseconds). The first
  three strings go to \<^verbatim>\<open>rd_strdup\<close>, which reads through its argument.\<close>

definition rd_kafka_aws_msk_iam_set_credential ::
  "rd_kafka \<Rightarrow> int \<Rightarrow> string option \<Rightarrow> string option \<Rightarrow> string option \<Rightarrow> string option
   \<Rightarrow> int \<Rightarrow> string \<Rightarrow> nat \<Rightarrow> crash + (rd_kafka_resp_err \<times> rd_kafka \<times> string)" where
  "rd_kafka_aws_msk_iam_set_credential rk now_wallclock aws_access_key_id aws_secret_access_key
       aws_region aws_security_token md_lifetime_ms errstr errstr_size =
     (let wts_md_lifetime = s64 (md_lifetime_ms * 1000) in
      case rk_sasl_handle rk of
        None \<Rightarrow>
          Inr (RD_KAFKA_RESP_ERR__STATE, rk,
               rd_snprintf errstr errstr_size
                 ''SASL/AWS_MSK_IAM is not the configured authentication mechanism'')
      | Some handle \<Rightarrow>
          if rk_sasl_provider rk \<noteq> rd_kafka_sasl_aws_msk_iam_provider then
            Inr (RD_KAFKA_RESP_ERR__STATE, rk,
                 rd_snprintf errstr errstr_size
                   ''SASL/AWS_MSK_IAM is not the configured authentication mechanism'')
          else if wts_md_lifetime \<le> now_wallclock then
            Inr (RD_KAFKA_RESP_ERR__INVALID_ARG, rk,
                 rd_snprintf errstr errstr_size
                   (''Must supply an unexpired token: now='' @ PRId64 (c_div now_wallclock 1000)
                    @ ''ms, exp='' @ PRId64 (c_div wts_md_lifetime 1000) @ ''ms''))
          else
            (case (aws_access_key_id, aws_secret_access_key, aws_region) of
               (Some key_id, Some secret, Some region) \<Rightarrow>
                 (let interval =
                        s64 (u64 (u64 (s64 (wts_md_lifetime - now_wallclock)) * 8) div 10)
                  in Inr (RD_KAFKA_RESP_ERR_NO_ERROR,
                          rk_log [Rwlock_wrlock, Timer_start interval, Rwlock_wrunlock,
                                  All_brokers_wakeup ''AWS_MSK_IAM credential refresh'']
                            (rk\<lparr>rk_sasl_handle := Some (handle
                                \<lparr>h_aws_access_key_id := Some key_id,
                                 h_aws_secret_access_key := Some secret,
                                 h_aws_region := Some region,
                                 h_aws_security_token := aws_security_token,
                                 h_errstr := None,
                                 credential_refresh_tmr := Some interval\<rparr>)\<rparr>),
                          errstr))
             | _ \<Rightarrow> Inl Null_pointer))"

definition rd_kafka_aws_msk_iam_set_credential_failure ::
  "rd_kafka \<Rightarrow> string option \<Rightarrow> rd_kafka" where
  "rd_kafka_aws_msk_iam_set_credential_failure rk errstr =
     (case rk_sasl_handle rk of
        None \<Rightarrow> rk
      | Some handle \<Rightarrow>
          if rk_sasl_provider rk \<noteq> rd_kafka_sasl_aws_msk_iam_provider then rk
          else
            (let handle1 = handle\<lparr>credential_refresh_tmr := Some (10 * 1000 * 1000)\<rparr>;
                 rk1 = rk_log [Rwlock_wrlock, Timer_start (10 * 1000 * 1000)]
                         (rk\<lparr>rk_sasl_handle := Some handle1\<rparr>)
             in case errstr of
                  None \<Rightarrow> rk_log [Rwlock_wrunlock] rk1
                | Some e \<Rightarrow>
                    if e = [] then rk_log [Rwlock_wrunlock] rk1
                    else
                      (let error_changed = (case h_errstr handle of
                                              None \<Rightarrow> True
                                            | Some old \<Rightarrow> old \<noteq> e);
                           rk2 = rk_log [Rwlock_wrunlock]
                                   (rk1\<lparr>rk_sasl_handle := Some (handle1\<lparr>h_errstr := Some e\<rparr>)\<rparr>)
                       in if error_changed then
                            rk_log [Op_err RD_KAFKA_RESP_ERR__AUTHENTICATION
                                      (''Failed to acquire SASL AWS_MSK_IAM credential: '' @ e)]
                              rk2
                          else rk2)))"

section \<open>The per-connection state machine\<close>

definition rd_kafka_sasl_aws_msk_iam_build_client_first_message ::
  "sasl_env \<Rightarrow> rd_kafka_sasl_aws_msk_iam_state \<Rightarrow> crash + string" where
  "rd_kafka_sasl_aws_msk_iam_build_client_first_message env st =
     (case (hostname st, st_aws_access_key_id st, st_aws_secret_access_key st, st_aws_region st,
            md st) of
        (Some host, Some key_id, Some secret, Some region, Some digest) \<Rightarrow>
          (case rd_kafka_aws_build_sasl_canonical_querystring (curl_ok env)
                  ''kafka-cluster:Connect'' key_id region (utc_ymd env) (utc_hms env)
                  ''kafka-cluster'' (st_aws_security_token st) of
             None \<Rightarrow> Inl Null_pointer
           | Some canonical_querystring \<Rightarrow>
               (let sasl_payload =
                      rd_kafka_aws_build_sasl_payload (utc_ymd env) (utc_hms env) host key_id
                        secret (st_aws_security_token st) region ''kafka-cluster'' ''GET''
                        ''AWS4-HMAC-SHA256'' (''host:'' @ host @ [CHR 0x0A])
                        canonical_querystring ''host'' [] digest
                in Inr (rd_snprintf [] (length sasl_payload + 1) sasl_payload)))
      | _ \<Rightarrow> Inl Null_pointer)"

definition rd_kafka_sasl_aws_msk_iam_handle_server_response ::
  "rd_kafka_transport \<Rightarrow> rd_chariov \<Rightarrow> string \<Rightarrow> nat \<Rightarrow> int \<times> rd_kafka_transport \<times> string" where
  "rd_kafka_sasl_aws_msk_iam_handle_server_response rktrans inp errstr errstr_size =
     (if iov_size inp \<noteq> 0 then (0, rd_kafka_sasl_auth_done rktrans, errstr)
      else (- 1, rktrans,
            rd_snprintf errstr errstr_size
              (''SASL AWS MSK IAM authentication failed: Broker response: '' @ iov_ptr inp)))"

definition rd_kafka_sasl_aws_msk_iam_fsm ::
  "sasl_env \<Rightarrow> rd_kafka_transport \<Rightarrow> rd_chariov option \<Rightarrow> string \<Rightarrow> nat
   \<Rightarrow> crash + (int \<times> rd_kafka_transport \<times> string)" where
  "rd_kafka_sasl_aws_msk_iam_fsm env rktrans inp errstr errstr_size =
     (case rktrans_sasl_state rktrans of
        None \<Rightarrow> Inl Null_pointer
      | Some st \<Rightarrow>
          (case state st of
             RD_KAFKA_SASL_AWS_MSK_IAM_SEND_CLIENT_FIRST_MESSAGE \<Rightarrow>
               (case inp of
                  Some i \<Rightarrow> Inl Assertion_failed
                | None \<Rightarrow>
                    (case rd_kafka_sasl_aws_msk_iam_build_client_first_message env st of
                       Inl c \<Rightarrow> Inl c
                     | Inr out \<Rightarrow>
                         Inr (fst (sasl_send env out errstr),
                              rktrans\<lparr>rktrans_sasl_state :=
                                        Some (st\<lparr>state :=
                                          RD_KAFKA_SASL_AWS_MSK_IAM_RECEIVE_SERVER_RESPONSE\<rparr>),
                                      rktrans_sent := rktrans_sent rktrans @ [out]\<rparr>,
                              snd (sasl_send env out errstr))))
           | RD_KAFKA_SASL_AWS_MSK_IAM_RECEIVE_SERVER_RESPONSE \<Rightarrow>
               (case inp of
                  None \<Rightarrow> Inl Assertion_failed
                | Some i \<Rightarrow>
                    Inr (rd_kafka_sasl_aws_msk_iam_handle_server_response rktrans i errstr
                           errstr_size))))"

definition rd_kafka_sasl_aws_msk_iam_recv ::
  "sasl_env \<Rightarrow> rd_kafka_transport \<Rightarrow> string \<Rightarrow> nat \<Rightarrow> string \<Rightarrow> nat
   \<Rightarrow> crash + (int \<times> rd_kafka_transport \<times> string)" where
  "rd_kafka_sasl_aws_msk_iam_recv env rktrans buf sz errstr errstr_size =
     rd_kafka_sasl_aws_msk_iam_fsm env rktrans (Some \<lparr>iov_ptr = buf, iov_size = sz\<rparr>) errstr
       errstr_size"

text \<open>The state \<^verbatim>\<open>rd_calloc\<close> returns, with the first assignment done.\<close>

definition calloc_state :: rd_kafka_sasl_aws_msk_iam_state where
  "calloc_state =
     \<lparr>state = RD_KAFKA_SASL_AWS_MSK_IAM_SEND_CLIENT_FIRST_MESSAGE, md = None, hostname = None,
      st_aws_access_key_id = None, st_aws_secret_access_key = None, st_aws_region = None,
      st_aws_security_token = None\<rparr>"

definition rd_kafka_sasl_aws_msk_iam_client_new ::
  "sasl_env \<Rightarrow> rd_kafka \<Rightarrow> rd_kafka_transport \<Rightarrow> string \<Rightarrow> string \<Rightarrow> nat
   \<Rightarrow> crash + (int \<times> rd_kafka \<times> rd_kafka_transport \<times> string)" where
  "rd_kafka_sasl_aws_msk_iam_client_new env rk rktrans host errstr errstr_size =
     (case rk_sasl_handle rk of
        None \<Rightarrow> Inl Null_pointer
      | Some handle \<Rightarrow>
          if h_aws_access_key_id handle = None \<or> h_aws_secret_access_key handle = None
             \<or> h_aws_region handle = None then
            Inr (- 1, rk_log [Rwlock_rdlock, Rwlock_rdunlock] rk,
                 rktrans\<lparr>rktrans_sasl_state := Some calloc_state\<rparr>,
                 rd_snprintf errstr errstr_size
                   (''AWS_MSK_IAM cannot log in because there ''
                    @ ''is no credentials available; last error: ''
                    @ (case h_errstr handle of Some e \<Rightarrow> e | None \<Rightarrow> ''(not available)'')))
          else if rk_enable_use_sts rk \<and> h_aws_security_token handle = None then
            Inr (- 1, rk_log [Rwlock_rdlock, Rwlock_rdunlock] rk,
                 rktrans\<lparr>rktrans_sasl_state := Some calloc_state\<rparr>,
                 rd_snprintf errstr errstr_size
                   (''AWS_MSK_IAM_STS cannot authenticate; last error: ''
                    @ (case h_errstr handle of Some e \<Rightarrow> e | None \<Rightarrow> ''(not available)'')))
          else
            (case rd_kafka_sasl_aws_msk_iam_fsm env
                    (rktrans\<lparr>rktrans_sasl_state := Some (calloc_state
                       \<lparr>md := Some EVP_sha256,
                        hostname := Some host,
                        st_aws_access_key_id := h_aws_access_key_id handle,
                        st_aws_secret_access_key := h_aws_secret_access_key handle,
                        st_aws_region := h_aws_region handle,
                        st_aws_security_token := h_aws_security_token handle\<rparr>)\<rparr>)
                    None errstr errstr_size of
               Inl c \<Rightarrow> Inl c
             | Inr (r, rktrans', errstr') \<Rightarrow>
                 Inr (r, rk_log [Rwlock_rdlock, Rwlock_rdunlock] rk, rktrans', errstr')))"

section \<open>Refreshing the credential from STS\<close>

record rd_kafka_aws_credential =
  cr_aws_access_key_id :: "string option"
  cr_aws_secret_access_key :: "string option"
  cr_aws_region :: "string option"
  cr_aws_security_token :: "string option"
  md_lifetime_ms :: int













section \<open>The spec's words for the signing helpers\<close>

text \<open>The unreserved set of the spec: \<open>A-Z a-z 0-9 - _ . ~\<close>.\<close>

definition unreserved :: "char set" where
  "unreserved = set (''ABCDEFGHIJKLMNOPQRSTUVWXYZ'' @ ''abcdefghijklmnopqrstuvwxyz''
                     @ ''0123456789'' @ ''-_.~'')"

text \<open>The fields of a text between occurrences of a delimiter.\<close>

fun split_on :: "char \<Rightarrow> string \<Rightarrow> string list" where
  "split_on d [] = [[]]"
| "split_on d (c # cs) =
     (if c = d then [] # split_on d cs
      else (case split_on d cs of
              [] \<Rightarrow> [[c]]
            | x # xs \<Rightarrow> (c # x) # xs))"

text \<open>Scenario 2 of the spec: the canonical request of the SASL \<open>kafka-cluster:Connect\<close>
  case, as the spec prints it.\<close>

definition scenario2_canonical_querystring :: string where
  "scenario2_canonical_querystring =
     ''Action=kafka-cluster%3AConnect&X-Amz-Algorithm=AWS4-HMAC-SHA256''
     @ ''&X-Amz-Credential=AWS_ACCESS_KEY_ID%2F20100101%2Fus-east-1%2Fkafka-cluster%2Faws4_request''
     @ ''&X-Amz-Date=20100101T000000Z&X-Amz-Expires=900&X-Amz-SignedHeaders=host''"

definition scenario2_canonical_request :: string where
  "scenario2_canonical_request =
     ''GET'' @ [CHR 0x0A] @ ''/'' @ [CHR 0x0A] @ scenario2_canonical_querystring @ [CHR 0x0A]
     @ ''host:hostname'' @ [CHR 0x0A] @ [CHR 0x0A] @ ''host'' @ [CHR 0x0A]
     @ ''e3b0c44298fc1c149afbf4c8996fb92427ae41e4649b934ca495991b7852b855''"

text \<open>The canonical query string of section 4.E of the spec, for the action
  \<open>kafka-cluster:Connect\<close> and the service \<open>kafka-cluster\<close>.\<close>

definition spec_canonical_query_string ::
  "string \<Rightarrow> string \<Rightarrow> string \<Rightarrow> string \<Rightarrow> string option \<Rightarrow> string" where
  "spec_canonical_query_string key_id region ymd hms token =
     ''Action=kafka-cluster%3AConnect&X-Amz-Algorithm=AWS4-HMAC-SHA256&X-Amz-Credential=''
     @ curl_easy_escape (key_id @ ''/'' @ ymd @ ''/'' @ region @ ''/kafka-cluster/aws4_request'')
     @ ''&X-Amz-Date='' @ curl_easy_escape (ymd @ ''T'' @ hms @ ''Z'')
     @ ''&X-Amz-Expires=900''
     @ (case token of
          None \<Rightarrow> []
        | Some tok \<Rightarrow> ''&X-Amz-Security-Token='' @ curl_easy_escape tok)
     @ ''&X-Amz-SignedHeaders=host''"

text \<open>The first message of section 4.E: the payload signed over a \<open>GET\<close> request with the
  header \<open>host\<close>, the query string above and the empty body.\<close>

definition first_message ::
  "sasl_env \<Rightarrow> string \<Rightarrow> string \<Rightarrow> string \<Rightarrow> string \<Rightarrow> string option \<Rightarrow> string" where
  "first_message env host key_id secret region token =
     rd_kafka_aws_build_sasl_payload (utc_ymd env) (utc_hms env) host key_id secret token region
       ''kafka-cluster'' ''GET'' ''AWS4-HMAC-SHA256'' (''host:'' @ host @ [CHR 0x0A])
       (spec_canonical_query_string key_id region (utc_ymd env) (utc_hms env) token)
       ''host'' [] EVP_sha256"

text \<open>Scenario 4 of the spec: the payload for the inputs of scenarios 2 and 3.\<close>

definition scenario4_payload :: string where
  \<open>scenario4_payload =
     ''{"version":"2020_10_22","host":"hostname","user-agent":"librdkafka",''
     @ ''"action":"kafka-cluster:Connect","x-amz-algorithm":"AWS4-HMAC-SHA256",''
     @ ''"x-amz-credential":"AWS_ACCESS_KEY_ID/20100101/us-east-1/kafka-cluster/aws4_request",''
     @ ''"x-amz-date":"20100101T000000Z","x-amz-signedheaders":"host","x-amz-expires":"900",''
     @ ''"x-amz-signature":"d3eeeddfb2c2b76162d583d7499c2364eb9a92b248218e31866659b18997ef44"}''\<close>



section \<open>Concrete inputs\<close>

definition ex_env :: sasl_env where
  "ex_env = \<lparr>curl_ok = True, utc_ymd = ''20100101'', utc_hms = ''000000'',
              sasl_send = (\<lambda>frame errstr. (0, errstr))\<rparr>"

definition ex_rktrans_receive :: rd_kafka_transport where
  "ex_rktrans_receive =
     \<lparr>rktrans_sasl_state =
        Some (calloc_state\<lparr>state := RD_KAFKA_SASL_AWS_MSK_IAM_RECEIVE_SERVER_RESPONSE\<rparr>),
      rktrans_auth_done = False, rktrans_sent = []\<rparr>"

definition ex_handle :: rd_kafka_sasl_aws_msk_iam_handle where
  "ex_handle =
     \<lparr>h_aws_access_key_id = Some ''AWS_ACCESS_KEY_ID'',
      h_aws_secret_access_key = Some ''AWS_SECRET_ACCESS_KEY'',
      h_aws_region = Some ''us-east-1'', h_aws_security_token = None,
      h_errstr = Some ''timeout'', credential_refresh_tmr = None\<rparr>"

definition ex_rk :: rd_kafka where
  "ex_rk =
     \<lparr>rk_sasl_provider = rd_kafka_sasl_aws_msk_iam_provider, rk_enable_use_sts = True,
      rk_duration_sec = 900, rk_conf_aws_region = ''us-east-1'',
      rk_sasl_handle = Some ex_handle, rk_events = []\<rparr>"

definition ex_rktrans_new :: rd_kafka_transport where
  "ex_rktrans_new = \<lparr>rktrans_sasl_state = None, rktrans_auth_done = False, rktrans_sent = []\<rparr>"




chapter \<open>Properties\<close>

section \<open>The server response\<close>

text \<open>
  C1 (as the code has it). For every server response delivered to the per-connection
  authenticator in the state \<^verbatim>\<open>RECEIVE_SERVER_RESPONSE\<close>, the attempt succeeds (return value
  0, \<^verbatim>\<open>rd_kafka_sasl_auth_done\<close> called, error text untouched) if and only if the response
  is non-empty; for the empty response it fails with return value -1 and the error text
  \<open>SASL AWS MSK IAM authentication failed: Broker response: \<close> followed by the text at the
  response pointer.
\<close>

theorem recv_server_response:
  assumes "rktrans_sasl_state rktrans = Some st"
    and "state st = RD_KAFKA_SASL_AWS_MSK_IAM_RECEIVE_SERVER_RESPONSE"
  shows "rd_kafka_sasl_aws_msk_iam_recv env rktrans buf sz errstr errstr_size =
           Inr (if sz = 0
                then (- 1, rktrans,
                      rd_snprintf errstr errstr_size
                        (''SASL AWS MSK IAM authentication failed: Broker response: '' @ buf))
                else (0, rktrans\<lparr>rktrans_auth_done := True\<rparr>, errstr))"
  using assms
  by (simp add: rd_kafka_sasl_aws_msk_iam_recv_def rd_kafka_sasl_aws_msk_iam_fsm_def
      rd_kafka_sasl_aws_msk_iam_handle_server_response_def rd_kafka_sasl_auth_done_def)

theorem recv_server_response_witness:
  "rd_kafka_sasl_aws_msk_iam_recv ex_env ex_rktrans_receive [] 0 [] 512 =
     Inr (- 1, ex_rktrans_receive,
          ''SASL AWS MSK IAM authentication failed: Broker response: '')"
  using recv_server_response [of ex_rktrans_receive
      "calloc_state\<lparr>state := RD_KAFKA_SASL_AWS_MSK_IAM_RECEIVE_SERVER_RESPONSE\<rparr>"
      ex_env "[]" 0 "[]" 512]
  by (simp add: ex_rktrans_receive_def rd_snprintf_def)

text \<open>The claim as written fails: a non-empty response (here 13 bytes of rejection text) ends
  the attempt with return value 0 and authentication done, and no error text is stored.\<close>

theorem recv_nonempty_response_succeeds:
  "rd_kafka_sasl_aws_msk_iam_recv ex_env ex_rktrans_receive ''Access denied'' 13 [] 512 =
     Inr (0, ex_rktrans_receive\<lparr>rktrans_auth_done := True\<rparr>, [])"
  by (simp add: rd_kafka_sasl_aws_msk_iam_recv_def rd_kafka_sasl_aws_msk_iam_fsm_def
      rd_kafka_sasl_aws_msk_iam_handle_server_response_def rd_kafka_sasl_auth_done_def
      ex_rktrans_receive_def calloc_state_def)

section \<open>Recording a failed refresh\<close>

text \<open>
  C7. For every call to the failure recorder with a non-empty error string (the mechanism
  configured, the handle present): the stored credential fields are left as they are, the
  refresh timer is started with 10 seconds, the string becomes the last error, and the event
  \<open>Failed to acquire SASL AWS_MSK_IAM credential: errstr\<close> with the authentication error code
  is emitted if and only if the string differs from the stored last error; a repeated
  identical string emits nothing.
\<close>

theorem set_credential_failure_event:
  assumes "rk_sasl_provider rk = rd_kafka_sasl_aws_msk_iam_provider"
    and "rk_sasl_handle rk = Some handle"
    and "e \<noteq> []"
  shows "rd_kafka_aws_msk_iam_set_credential_failure rk (Some e) =
           rk\<lparr>rk_sasl_handle :=
                Some (handle\<lparr>h_errstr := Some e,
                             credential_refresh_tmr := Some (10 * 1000 * 1000)\<rparr>),
              rk_events :=
                rk_events rk
                @ [Rwlock_wrlock, Timer_start (10 * 1000 * 1000), Rwlock_wrunlock]
                @ (if h_errstr handle = Some e then []
                   else [Op_err RD_KAFKA_RESP_ERR__AUTHENTICATION
                           (''Failed to acquire SASL AWS_MSK_IAM credential: '' @ e)])\<rparr>"
  using assms
  by (auto simp add: rd_kafka_aws_msk_iam_set_credential_failure_def rk_log_def Let_def
      split: option.splits)

theorem set_credential_failure_event_witness:
  "rd_kafka_aws_msk_iam_set_credential_failure ex_rk (Some ''timeout'') =
     ex_rk\<lparr>rk_sasl_handle := Some (ex_handle\<lparr>credential_refresh_tmr := Some 10000000\<rparr>),
           rk_events := [Rwlock_wrlock, Timer_start 10000000, Rwlock_wrunlock]\<rparr>
   \<and> rd_kafka_aws_msk_iam_set_credential_failure ex_rk (Some ''denied'') =
     ex_rk\<lparr>rk_sasl_handle :=
             Some (ex_handle\<lparr>h_errstr := Some ''denied'',
                             credential_refresh_tmr := Some 10000000\<rparr>),
           rk_events :=
             [Rwlock_wrlock, Timer_start 10000000, Rwlock_wrunlock,
              Op_err RD_KAFKA_RESP_ERR__AUTHENTICATION
                ''Failed to acquire SASL AWS_MSK_IAM credential: denied'']\<rparr>"
  using set_credential_failure_event [of ex_rk ex_handle "''timeout''"]
    set_credential_failure_event [of ex_rk ex_handle "''denied''"]
  by (simp add: ex_rk_def ex_handle_def)

text \<open>
  C10. When the failure recorder is called with \<^verbatim>\<open>NULL\<close> or with the empty string (the
  mechanism configured, the handle present), it starts the 10-second timer and returns: the
  last error and the credential fields stay as they are and no event is emitted.
\<close>

theorem set_credential_failure_quiet:
  assumes "rk_sasl_provider rk = rd_kafka_sasl_aws_msk_iam_provider"
    and "rk_sasl_handle rk = Some handle"
    and "errstr = None \<or> errstr = Some []"
  shows "rd_kafka_aws_msk_iam_set_credential_failure rk errstr =
           rk\<lparr>rk_sasl_handle :=
                Some (handle\<lparr>credential_refresh_tmr := Some (10 * 1000 * 1000)\<rparr>),
              rk_events :=
                rk_events rk
                @ [Rwlock_wrlock, Timer_start (10 * 1000 * 1000), Rwlock_wrunlock]\<rparr>"
  using assms
  by (auto simp add: rd_kafka_aws_msk_iam_set_credential_failure_def rk_log_def)

theorem set_credential_failure_quiet_witness:
  "rd_kafka_aws_msk_iam_set_credential_failure ex_rk None =
     ex_rk\<lparr>rk_sasl_handle := Some (ex_handle\<lparr>credential_refresh_tmr := Some 10000000\<rparr>),
           rk_events := [Rwlock_wrlock, Timer_start 10000000, Rwlock_wrunlock]\<rparr>
   \<and> rd_kafka_aws_msk_iam_set_credential_failure ex_rk (Some []) =
     ex_rk\<lparr>rk_sasl_handle := Some (ex_handle\<lparr>credential_refresh_tmr := Some 10000000\<rparr>),
           rk_events := [Rwlock_wrlock, Timer_start 10000000, Rwlock_wrunlock]\<rparr>"
  using set_credential_failure_quiet [of ex_rk ex_handle None]
    set_credential_failure_quiet [of ex_rk ex_handle "Some []"]
  by (simp add: ex_rk_def ex_handle_def)

section \<open>Installing a credential\<close>

lemma s64_id: "- (2 ^ 63) \<le> x \<Longrightarrow> x < 2 ^ 63 \<Longrightarrow> s64 x = x"
  by (simp add: s64_def)

lemma u64_id: "0 \<le> x \<Longrightarrow> x < 2 ^ 64 \<Longrightarrow> u64 x = x"
  by (simp add: u64_def)


text \<open>Where nothing wraps, the interval is eight tenths of the remaining lifetime, rounded
  down to a whole microsecond.\<close>

lemma refresh_interval:
  assumes "now < wts" and "(wts - now) * 8 < 2 ^ 64"
  shows "s64 (u64 (u64 (s64 (wts - now)) * 8) div 10) = (wts - now) * 8 div 10"
proof -
  have a: "s64 (wts - now) = wts - now"
    using assms by (intro s64_id) simp_all
  have b: "u64 (wts - now) = wts - now"
    using assms by (intro u64_id) simp_all
  have c: "u64 ((wts - now) * 8) = (wts - now) * 8"
    using assms by (intro u64_id) simp_all
  have d: "(wts - now) * 8 div 10 < 2 ^ 63"
    using assms by simp
  have e: "0 \<le> (wts - now) * 8 div 10"
    using assms by simp
  have "s64 ((wts - now) * 8 div 10) = (wts - now) * 8 div 10"
    using d e by (intro s64_id) simp_all
  then show ?thesis
    by (simp only: a b c)
qed

text \<open>
  C6. With the mechanism configured and the handle present, and an expiry whose value in
  microseconds fits \<^verbatim>\<open>int64_t\<close>: the installer rejects every call whose expiry
  (milliseconds, times 1000) is less than or equal to the wall clock (microseconds) with the
  invalid-argument error and leaves the client instance as it was, so the stored credentials,
  the last error, the timer and the calls made are unchanged. Every other call (the three
  required strings given) replaces the four credential fields, the token by the one given or
  by none, clears the last error, starts the timer with eight tenths of the
  remaining lifetime (whole microseconds, rounded down; stated where eight times the remaining
  lifetime fits \<^verbatim>\<open>unsigned long\<close>, the type the source multiplies in), and wakes the broker
  threads after the write lock is released. A remaining lifetime of 1000 ms gives 800 ms.
\<close>

theorem set_credential_outcome:
  assumes "rk_sasl_provider rk = rd_kafka_sasl_aws_msk_iam_provider"
    and "rk_sasl_handle rk = Some handle"
    and "- (2 ^ 63) \<le> expiry_ms * 1000" and "expiry_ms * 1000 < 2 ^ 63"
  shows "(expiry_ms * 1000 \<le> now \<longrightarrow>
          rd_kafka_aws_msk_iam_set_credential rk now key_ptr secret_ptr region_ptr token
            expiry_ms errstr errstr_size =
          Inr (RD_KAFKA_RESP_ERR__INVALID_ARG, rk,
               rd_snprintf errstr errstr_size
                 (''Must supply an unexpired token: now='' @ PRId64 (c_div now 1000)
                  @ ''ms, exp='' @ PRId64 (c_div (expiry_ms * 1000) 1000) @ ''ms'')))
       \<and> (now < expiry_ms * 1000 \<and> (expiry_ms * 1000 - now) * 8 < 2 ^ 64 \<longrightarrow>
          rd_kafka_aws_msk_iam_set_credential rk now (Some key_id) (Some secret) (Some region)
            token expiry_ms errstr errstr_size =
          Inr (RD_KAFKA_RESP_ERR_NO_ERROR,
               rk\<lparr>rk_sasl_handle :=
                    Some (handle
                      \<lparr>h_aws_access_key_id := Some key_id,
                       h_aws_secret_access_key := Some secret,
                       h_aws_region := Some region,
                       h_aws_security_token := token,
                       h_errstr := None,
                       credential_refresh_tmr :=
                         Some ((expiry_ms * 1000 - now) * 8 div 10)\<rparr>),
                  rk_events :=
                    rk_events rk
                    @ [Rwlock_wrlock,
                       Timer_start ((expiry_ms * 1000 - now) * 8 div 10),
                       Rwlock_wrunlock,
                       All_brokers_wakeup ''AWS_MSK_IAM credential refresh'']\<rparr>,
               errstr))"
proof -
  have w: "s64 (expiry_ms * 1000) = expiry_ms * 1000"
    using assms by (intro s64_id) simp_all
  have rejected: "rd_kafka_aws_msk_iam_set_credential rk now key_ptr secret_ptr region_ptr token
            expiry_ms errstr errstr_size =
          Inr (RD_KAFKA_RESP_ERR__INVALID_ARG, rk,
               rd_snprintf errstr errstr_size
                 (''Must supply an unexpired token: now='' @ PRId64 (c_div now 1000)
                  @ ''ms, exp='' @ PRId64 (c_div (expiry_ms * 1000) 1000) @ ''ms''))"
    if "expiry_ms * 1000 \<le> now"
    using that assms(1,2) by (simp add: rd_kafka_aws_msk_iam_set_credential_def w Let_def)
  have accepted: "rd_kafka_aws_msk_iam_set_credential rk now (Some key_id) (Some secret)
            (Some region) token expiry_ms errstr errstr_size =
          Inr (RD_KAFKA_RESP_ERR_NO_ERROR,
               rk\<lparr>rk_sasl_handle :=
                    Some (handle
                      \<lparr>h_aws_access_key_id := Some key_id,
                       h_aws_secret_access_key := Some secret,
                       h_aws_region := Some region,
                       h_aws_security_token := token,
                       h_errstr := None,
                       credential_refresh_tmr :=
                         Some ((expiry_ms * 1000 - now) * 8 div 10)\<rparr>),
                  rk_events :=
                    rk_events rk
                    @ [Rwlock_wrlock,
                       Timer_start ((expiry_ms * 1000 - now) * 8 div 10),
                       Rwlock_wrunlock,
                       All_brokers_wakeup ''AWS_MSK_IAM credential refresh'']\<rparr>,
               errstr)"
    if "now < expiry_ms * 1000" and "(expiry_ms * 1000 - now) * 8 < 2 ^ 64"
  proof -
    have "s64 (u64 (u64 (s64 (expiry_ms * 1000 - now)) * 8) div 10)
               = (expiry_ms * 1000 - now) * 8 div 10"
      using that by (intro refresh_interval) simp_all
    then show ?thesis
      using that assms(1,2)
      by (simp add: rd_kafka_aws_msk_iam_set_credential_def w rk_log_def Let_def)
  qed
  show ?thesis
    using rejected accepted by blast
qed

text \<open>At wall clock 1 s: an expiry of 2000 ms leaves 1000 ms and starts the timer with
  800000 microseconds; an expiry of 1000 ms is rejected.\<close>

theorem set_credential_outcome_witness:
  "rd_kafka_aws_msk_iam_set_credential ex_rk 1000000 (Some ''KEY'') (Some ''SECRET'')
       (Some ''eu-west-1'') (Some ''TOKEN'') 2000 [] 512 =
     Inr (RD_KAFKA_RESP_ERR_NO_ERROR,
          ex_rk\<lparr>rk_sasl_handle :=
                  Some \<lparr>h_aws_access_key_id = Some ''KEY'',
                        h_aws_secret_access_key = Some ''SECRET'',
                        h_aws_region = Some ''eu-west-1'',
                        h_aws_security_token = Some ''TOKEN'',
                        h_errstr = None, credential_refresh_tmr = Some 800000\<rparr>,
                rk_events := [Rwlock_wrlock, Timer_start 800000, Rwlock_wrunlock,
                              All_brokers_wakeup ''AWS_MSK_IAM credential refresh'']\<rparr>,
          [])
   \<and> rd_kafka_aws_msk_iam_set_credential ex_rk 1000000 (Some ''KEY'') (Some ''SECRET'')
       (Some ''eu-west-1'') (Some ''TOKEN'') 1000 [] 512 =
     Inr (RD_KAFKA_RESP_ERR__INVALID_ARG, ex_rk,
          ''Must supply an unexpired token: now=1000ms, exp=1000ms'')"
  using set_credential_outcome [where rk = ex_rk and handle = ex_handle and expiry_ms = 2000
      and now = 1000000 and key_id = "''KEY''" and secret = "''SECRET''"
      and region = "''eu-west-1''" and token = "Some ''TOKEN''" and errstr = "[]"
      and errstr_size = 512]
    set_credential_outcome [where rk = ex_rk and handle = ex_handle and expiry_ms = 1000
      and now = 1000000 and key_ptr = "Some ''KEY''" and secret_ptr = "Some ''SECRET''"
      and region_ptr = "Some ''eu-west-1''" and token = "Some ''TOKEN''" and errstr = "[]"
      and errstr_size = 512]
  by (simp add: ex_rk_def ex_handle_def rd_snprintf_def PRId64_def c_div_def)

section \<open>URI encoding\<close>

lemma Curl_isunreserved_iff: "Curl_isunreserved c \<longleftrightarrow> c \<in> unreserved"
proof (cases c)
  case (Char b0 b1 b2 b3 b4 b5 b6 b7)
  show ?thesis
    unfolding Char Curl_isunreserved_def unreserved_def
    by (cases b0; cases b1; cases b2; cases b3; cases b4; cases b5; cases b6; cases b7)
      (simp_all add: Let_def)
qed

lemma of_char_div_16: "(of_char c :: nat) div 16 < 16"
proof -
  have "(of_char c :: nat) < 256"
    by (metis of_char_mod_256 mod_less_divisor zero_less_numeral)
  then show ?thesis by arith
qed

lemma hexdigit_upper_range: "n < 16 \<Longrightarrow> hexdigit_upper n \<in> set ''0123456789ABCDEF''"
  unfolding hexdigit_upper_def by (rule nth_mem) simp

lemma hexdigit_range: "n < 16 \<Longrightarrow> hexdigit n \<in> set ''0123456789abcdef''"
  unfolding hexdigit_def by (rule nth_mem) simp

lemma curl_easy_escape_map:
  "curl_easy_escape s =
     concat (map (\<lambda>c. if c \<in> unreserved then [c]
                        else [CHR ''%'', hexdigit_upper (of_char c div 16),
                              hexdigit_upper (of_char c mod 16)]) s)"
  by (induction s) (simp_all add: Curl_isunreserved_iff)

lemma curl_easy_escape_alphabet:
  "set (curl_easy_escape s) \<subseteq> unreserved \<union> set ''%0123456789ABCDEF''"
proof (induction s)
  case Nil
  show ?case by simp
next
  case (Cons c cs)
  have hi: "hexdigit_upper (of_char c div 16) \<in> set ''0123456789ABCDEF''"
    by (rule hexdigit_upper_range) (rule of_char_div_16)
  have lo: "hexdigit_upper (of_char c mod 16) \<in> set ''0123456789ABCDEF''"
    by (rule hexdigit_upper_range) simp
  show ?case
    using Cons.IH hi lo by (auto simp add: Curl_isunreserved_iff)
qed

lemma amp_not_escaped: "CHR ''&'' \<notin> set (curl_easy_escape s)"
proof
  assume "CHR ''&'' \<in> set (curl_easy_escape s)"
  then have "CHR ''&'' \<in> unreserved \<union> set ''%0123456789ABCDEF''"
    using curl_easy_escape_alphabet by blast
  then show False by (simp add: unreserved_def)
qed

lemma split_on_field:
  "d \<notin> set a \<Longrightarrow> split_on d (a @ d # rest) = a # split_on d rest"
  by (induction a) auto

lemma split_on_last: "d \<notin> set a \<Longrightarrow> split_on d a = [a]"
  by (induction a) auto

lemma construct_amz_date: "rd_kafka_aws_construct_amz_date ymd hms = ymd @ ''T'' @ hms @ ''Z''"
  by (simp add: rd_kafka_aws_construct_amz_date_def rd_snprintf_def)

lemma construct_credential_scope:
  "rd_kafka_aws_construct_credential_scope ymd aws_region aws_service =
     ymd @ ''/'' @ aws_region @ ''/'' @ aws_service @ ''/aws4_request''"
  by (simp add: rd_kafka_aws_construct_credential_scope_def rd_snprintf_def)

lemma sasl_canonical_querystring:
  "rd_kafka_aws_build_sasl_canonical_querystring True action key_id region ymd hms service token =
     Some (''Action='' @ curl_easy_escape action
           @ ''&X-Amz-Algorithm=AWS4-HMAC-SHA256''
           @ ''&X-Amz-Credential=''
           @ curl_easy_escape (key_id @ ''/'' @ ymd @ ''/'' @ region @ ''/'' @ service
                               @ ''/aws4_request'')
           @ ''&X-Amz-Date='' @ curl_easy_escape (ymd @ ''T'' @ hms @ ''Z'')
           @ ''&X-Amz-Expires=900''
           @ (case token of
                None \<Rightarrow> []
              | Some tok \<Rightarrow> ''&X-Amz-Security-Token='' @ curl_easy_escape tok)
           @ ''&X-Amz-SignedHeaders=host'')"
  by (simp add: rd_kafka_aws_build_sasl_canonical_querystring_def rd_kafka_aws_uri_encode_def
      construct_amz_date construct_credential_scope split: option.split)

lemma sasl_canonical_querystring_fields:
  "map_option (split_on (CHR ''&''))
     (rd_kafka_aws_build_sasl_canonical_querystring True action key_id region ymd hms service
        token) =
     Some ([''Action='' @ curl_easy_escape action,
            ''X-Amz-Algorithm=AWS4-HMAC-SHA256'',
            ''X-Amz-Credential=''
            @ curl_easy_escape (key_id @ ''/'' @ ymd @ ''/'' @ region @ ''/'' @ service
                                @ ''/aws4_request''),
            ''X-Amz-Date='' @ curl_easy_escape (ymd @ ''T'' @ hms @ ''Z''),
            ''X-Amz-Expires=900'']
           @ (case token of
                None \<Rightarrow> []
              | Some tok \<Rightarrow> [''X-Amz-Security-Token='' @ curl_easy_escape tok])
           @ [''X-Amz-SignedHeaders=host''])"
proof -
  have f: "\<And>p e rest. CHR ''&'' \<notin> set p \<Longrightarrow>
      split_on (CHR ''&'') (p @ curl_easy_escape e @ CHR ''&'' # rest)
      = (p @ curl_easy_escape e) # split_on (CHR ''&'') rest"
    using split_on_field [of "CHR ''&''"] amp_not_escaped
    by (metis Un_iff append.assoc set_append)
  have l: "split_on (CHR ''&'') ''X-Amz-SignedHeaders=host'' = [''X-Amz-SignedHeaders=host'']"
    by (rule split_on_last) simp
  have a: "split_on (CHR ''&'') (''X-Amz-Algorithm=AWS4-HMAC-SHA256'' @ CHR ''&'' # rest)
        = ''X-Amz-Algorithm=AWS4-HMAC-SHA256'' # split_on (CHR ''&'') rest" for rest
    by (rule split_on_field) simp
  have x: "split_on (CHR ''&'') (''X-Amz-Expires=900'' @ CHR ''&'' # rest)
        = ''X-Amz-Expires=900'' # split_on (CHR ''&'') rest" for rest
    by (rule split_on_field) simp
  show ?thesis
  proof (cases token)
    case None
    show ?thesis
      unfolding sasl_canonical_querystring None
      using f [of "''Action=''"] f [of "''X-Amz-Credential=''"] f [of "''X-Amz-Date=''"] a x l
      by simp
  next
    case (Some tok)
    show ?thesis
      unfolding sasl_canonical_querystring Some
      using f [of "''Action=''"] f [of "''X-Amz-Credential=''"] f [of "''X-Amz-Date=''"]
        f [of "''X-Amz-Security-Token=''"] a x l
      by simp
  qed
qed


section \<open>Digests\<close>

lemma length_be_bytes: "length (be_bytes n bs) = n"
  by (induction n arbitrary: bs) simp_all

lemma length_digest_bytes: "length (digest_bytes s) = 32"
proof -
  have "\<And>s. length (digest_bytes s) = 32"
    by (simp add: split_paired_all length_be_bytes)
  then show ?thesis .
qed

lemma length_SHA256: "length (SHA256 m) = 32"
  by (simp add: SHA256_def length_digest_bytes)

lemma length_HMAC_SHA256: "length (HMAC_SHA256 key data) = 32"
  by (simp add: HMAC_SHA256_def length_SHA256)

lemma length_hexstr: "length (hexstr bs) = 2 * length bs"
  by (induction bs) (simp_all add: hexstr_def hex_byte_def)

lemma hexstr_alphabet: "set (hexstr bs) \<subseteq> set ''0123456789abcdef''"
proof (induction bs)
  case Nil
  show ?case by (simp add: hexstr_def)
next
  case (Cons c cs)
  have hi: "hexdigit (of_char c div 16) \<in> set ''0123456789abcdef''"
    by (rule hexdigit_range) (rule of_char_div_16)
  have lo: "hexdigit (of_char c mod 16) \<in> set ''0123456789abcdef''"
    by (rule hexdigit_range) simp
  show ?case
    using Cons.IH hi lo by (simp add: hexstr_def hex_byte_def)
qed

lemma SHA256_empty:
  "hexstr (SHA256 []) = ''e3b0c44298fc1c149afbf4c8996fb92427ae41e4649b934ca495991b7852b855''"
  by code_simp

lemma SHA256_scenario2_canonical_request:
  "hexstr (SHA256 scenario2_canonical_request) =
     ''8a719fb6d4b33f7d9c5b25b65af85a44d3627bdca66e1287b1a366fa90bafaa1''"
  by code_simp

lemma scenario2_signature:
  "rd_kafka_aws_build_signature ''AWS_SECRET_ACCESS_KEY'' ''us-east-1'' ''20100101''
     ''kafka-cluster''
     (''AWS4-HMAC-SHA256'' @ [CHR 0x0A] @ ''20100101T000000Z'' @ [CHR 0x0A]
      @ ''20100101/us-east-1/kafka-cluster/aws4_request'' @ [CHR 0x0A]
      @ ''8a719fb6d4b33f7d9c5b25b65af85a44d3627bdca66e1287b1a366fa90bafaa1'') =
   ''d3eeeddfb2c2b76162d583d7499c2364eb9a92b248218e31866659b18997ef44''"
  by code_simp

text \<open>
  C3. For every method, canonical query string, canonical headers, signed headers and request
  body, the canonical request is the method, \<open>/\<close>, the query string, the headers, the signed
  headers and the lowercase hexadecimal SHA-256 of the body (64 characters), in that order,
  each followed by a single newline except the last; the canonical URI is always the literal
  \<open>/\<close>. For the empty body the last line is the constant \<open>e3b0c442...7852b855\<close>; with the
  inputs of scenario 2 the text is the one the spec prints.
\<close>

theorem canonical_request_lines:
  "rd_kafka_aws_build_canonical_request method canonical_query_string canonical_headers
       signed_headers request_parameters EVP_sha256 =
     method @ [CHR 0x0A] @ ''/'' @ [CHR 0x0A] @ canonical_query_string @ [CHR 0x0A]
     @ canonical_headers @ [CHR 0x0A] @ signed_headers @ [CHR 0x0A]
     @ hexstr (SHA256 request_parameters)
   \<and> length (hexstr (SHA256 request_parameters)) = 64
   \<and> set (hexstr (SHA256 request_parameters)) \<subseteq> set ''0123456789abcdef''
   \<and> rd_kafka_aws_build_canonical_request method canonical_query_string canonical_headers
       signed_headers [] EVP_sha256 =
     method @ [CHR 0x0A] @ ''/'' @ [CHR 0x0A] @ canonical_query_string @ [CHR 0x0A]
     @ canonical_headers @ [CHR 0x0A] @ signed_headers @ [CHR 0x0A]
     @ ''e3b0c44298fc1c149afbf4c8996fb92427ae41e4649b934ca495991b7852b855''
   \<and> rd_kafka_aws_build_canonical_request ''GET'' scenario2_canonical_querystring
       (''host:hostname'' @ [CHR 0x0A]) ''host'' [] EVP_sha256 =
     scenario2_canonical_request"
  using hexstr_alphabet [of "SHA256 request_parameters"]
  by (simp add: rd_kafka_aws_build_canonical_request_def length_hexstr length_SHA256
      SHA256_empty scenario2_canonical_request_def)

text \<open>The unit test \<^verbatim>\<open>unittest_build_canonical_request\<close> passes the headers
  \<open>host:hostname\<close> without the closing newline and expects the text of scenario 2; the
  function gives that text only for the headers the connection code builds, which end in a
  newline.\<close>

lemma unittest_build_canonical_request_input:
  "rd_kafka_aws_build_canonical_request ''GET'' scenario2_canonical_querystring
     ''host:hostname'' ''host'' [] EVP_sha256 \<noteq> scenario2_canonical_request"
  by (simp add: rd_kafka_aws_build_canonical_request_def SHA256_empty
      scenario2_canonical_request_def)

text \<open>
  C2. For every secret, region, date, service and string to sign, the signer returns the
  hexadecimal text of \<open>hmac(k_signing, string_to_sign)\<close> for the key chain
  \<open>k_date = hmac("AWS4" + secret, ymd)\<close>, \<open>k_region = hmac(k_date, region)\<close>,
  \<open>k_service = hmac(k_region, service)\<close>, \<open>k_signing = hmac(k_service, "aws4_request")\<close>;
  the result has 64 characters, all of them lowercase hexadecimal digits, and is a function of
  the inputs alone. For the secret \<open>AWS_SECRET_ACCESS_KEY\<close>, region \<open>us-east-1\<close>, date
  \<open>20100101\<close>, service \<open>kafka-cluster\<close> and the string to sign built from the canonical
  request of scenario 2 it is \<open>d3eeeddf...8997ef44\<close>.
\<close>

theorem signature_key_chain:
  "rd_kafka_aws_build_signature secret region ymd service string_to_sign =
     hexstr (HMAC_SHA256
       (HMAC_SHA256
          (HMAC_SHA256
             (HMAC_SHA256 (HMAC_SHA256 (''AWS4'' @ secret) ymd) region)
             service)
          ''aws4_request'')
       string_to_sign)
   \<and> length (rd_kafka_aws_build_signature secret region ymd service string_to_sign) = 64
   \<and> set (rd_kafka_aws_build_signature secret region ymd service string_to_sign)
       \<subseteq> set ''0123456789abcdef''
   \<and> rd_kafka_aws_build_signature ''AWS_SECRET_ACCESS_KEY'' ''us-east-1'' ''20100101''
       ''kafka-cluster''
       (rd_kafka_aws_build_string_to_sign ''AWS4-HMAC-SHA256''
          (rd_kafka_aws_construct_credential_scope ''20100101'' ''us-east-1'' ''kafka-cluster'')
          (rd_kafka_aws_construct_amz_date ''20100101'' ''000000'')
          scenario2_canonical_request EVP_sha256) =
     ''d3eeeddfb2c2b76162d583d7499c2364eb9a92b248218e31866659b18997ef44''"
proof -
  have sts: "rd_kafka_aws_build_string_to_sign ''AWS4-HMAC-SHA256''
          (rd_kafka_aws_construct_credential_scope ''20100101'' ''us-east-1'' ''kafka-cluster'')
          (rd_kafka_aws_construct_amz_date ''20100101'' ''000000'')
          scenario2_canonical_request EVP_sha256 =
        ''AWS4-HMAC-SHA256'' @ [CHR 0x0A] @ ''20100101T000000Z'' @ [CHR 0x0A]
        @ ''20100101/us-east-1/kafka-cluster/aws4_request'' @ [CHR 0x0A]
        @ ''8a719fb6d4b33f7d9c5b25b65af85a44d3627bdca66e1287b1a366fa90bafaa1''"
    by (simp add: rd_kafka_aws_build_string_to_sign_def construct_credential_scope
        construct_amz_date SHA256_scenario2_canonical_request)
  have chain: "rd_kafka_aws_build_signature secret region ymd service string_to_sign =
     hexstr (HMAC_SHA256
       (HMAC_SHA256
          (HMAC_SHA256
             (HMAC_SHA256 (HMAC_SHA256 (''AWS4'' @ secret) ymd) region)
             service)
          ''aws4_request'')
       string_to_sign)"
    by (simp add: rd_kafka_aws_build_signature_def rd_kafka_aws_hmac_sha256_def)
  show ?thesis
    unfolding sts scenario2_signature
    using hexstr_alphabet chain
    by (simp add: length_hexstr length_HMAC_SHA256)
qed

section \<open>URI encoding, query string and payload\<close>

text \<open>
  C5. With a curl handle at hand, \<open>uri_encode\<close> leaves every byte of the unreserved set
  \<open>A-Z a-z 0-9 - _ . ~\<close> as it is and replaces every other byte by \<open>%\<close> and the two
  uppercase hexadecimal digits of its value; \<open>testString-123/*&\<close> becomes
  \<open>testString-123%2F%2A%26\<close>.
\<close>

theorem uri_encode_unreserved:
  "rd_kafka_aws_uri_encode True s =
     Some (concat (map (\<lambda>c. if c \<in> unreserved then [c]
                              else [CHR ''%'', hexdigit_upper (of_char c div 16),
                                    hexdigit_upper (of_char c mod 16)]) s))
   \<and> hexdigit_upper (of_char c div 16) \<in> set ''0123456789ABCDEF''
   \<and> hexdigit_upper (of_char c mod 16) \<in> set ''0123456789ABCDEF''
   \<and> rd_kafka_aws_uri_encode True ''testString-123/*&'' = Some ''testString-123%2F%2A%26''"
proof -
  have hi: "hexdigit_upper (of_char c div 16) \<in> set ''0123456789ABCDEF''"
    by (rule hexdigit_upper_range) (rule of_char_div_16)
  have lo: "hexdigit_upper (of_char c mod 16) \<in> set ''0123456789ABCDEF''"
    by (rule hexdigit_upper_range) simp
  have ex: "rd_kafka_aws_uri_encode True ''testString-123/*&'' = Some ''testString-123%2F%2A%26''"
    by (simp add: rd_kafka_aws_uri_encode_def Curl_isunreserved_def hexdigit_upper_def)
  have all: "rd_kafka_aws_uri_encode True s =
     Some (concat (map (\<lambda>c. if c \<in> unreserved then [c]
                              else [CHR ''%'', hexdigit_upper (of_char c div 16),
                                    hexdigit_upper (of_char c mod 16)]) s))"
    unfolding rd_kafka_aws_uri_encode_def using curl_easy_escape_map [of s] by simp
  show ?thesis
    using hi lo ex all by blast
qed

theorem uri_encode_unreserved_witness:
  "rd_kafka_aws_uri_encode True ''a b~'' = Some ''a%20b~''"
  using uri_encode_unreserved [of "''a b~''" "CHR '' ''"]
  by (simp add: unreserved_def hexdigit_upper_def)

lemma sasl_payload_text:
  \<open>rd_kafka_aws_build_sasl_payload ymd hms host key_id secret token region service http_method
       algorithm canonical_headers canonical_querystring signed_headers request_parameters
       digest =
     ''{"version":"2020_10_22","host":"'' @ host
     @ ''","user-agent":"librdkafka","action":"kafka-cluster:Connect",''
     @ ''"x-amz-algorithm":"AWS4-HMAC-SHA256","x-amz-credential":"''
     @ key_id @ ''/'' @ ymd @ ''/'' @ region @ ''/'' @ service @ ''/aws4_request",''
     @ ''"x-amz-date":"'' @ ymd @ ''T'' @ hms @ ''Z",''
     @ (case token of
          None \<Rightarrow> []
        | Some tok \<Rightarrow> ''"x-amz-security-token":"'' @ tok @ ''",'')
     @ ''"x-amz-signedheaders":"host","x-amz-expires":"900","x-amz-signature":"''
     @ rd_kafka_aws_build_signature secret region ymd service
         (rd_kafka_aws_build_string_to_sign algorithm
            (ymd @ ''/'' @ region @ ''/'' @ service @ ''/aws4_request'')
            (ymd @ ''T'' @ hms @ ''Z'')
            (rd_kafka_aws_build_canonical_request http_method canonical_querystring
               canonical_headers signed_headers request_parameters digest)
            digest)
     @ ''"}''\<close>
  by (simp add: rd_kafka_aws_build_sasl_payload_def construct_credential_scope
      construct_amz_date)

text \<open>
  C4. The fields of the SASL canonical query string, read between the \<open>&\<close> signs, are
  \<open>Action\<close>, \<open>X-Amz-Algorithm\<close>, \<open>X-Amz-Credential\<close>, \<open>X-Amz-Date\<close>, \<open>X-Amz-Expires=900\<close>,
  then \<open>X-Amz-Security-Token\<close> exactly when a session token is given, then
  \<open>X-Amz-SignedHeaders=host\<close>; the values of Action, Credential, Date and Security-Token are
  URI-encoded. In the JSON payload the field \<open>x-amz-security-token\<close> is there exactly when a
  token is given, between \<open>x-amz-date\<close> and \<open>x-amz-signedheaders\<close>, and carries the token as
  it is, not encoded. The last two equations are scenario 2 of the spec and the same inputs
  with the token \<open>a/b+c=\<close>.
\<close>

theorem sasl_querystring_order_and_payload_token:
  \<open>map_option (split_on (CHR ''&''))
     (rd_kafka_aws_build_sasl_canonical_querystring True action key_id region ymd hms service
        token) =
     Some ([''Action='' @ curl_easy_escape action,
            ''X-Amz-Algorithm=AWS4-HMAC-SHA256'',
            ''X-Amz-Credential=''
            @ curl_easy_escape (key_id @ ''/'' @ ymd @ ''/'' @ region @ ''/'' @ service
                                @ ''/aws4_request''),
            ''X-Amz-Date='' @ curl_easy_escape (ymd @ ''T'' @ hms @ ''Z''),
            ''X-Amz-Expires=900'']
           @ (case token of
                None \<Rightarrow> []
              | Some tok \<Rightarrow> [''X-Amz-Security-Token='' @ curl_easy_escape tok])
           @ [''X-Amz-SignedHeaders=host''])
   \<and> rd_kafka_aws_build_sasl_payload ymd hms host key_id secret token region service http_method
       algorithm canonical_headers canonical_querystring signed_headers request_parameters
       digest =
     ''{"version":"2020_10_22","host":"'' @ host
     @ ''","user-agent":"librdkafka","action":"kafka-cluster:Connect",''
     @ ''"x-amz-algorithm":"AWS4-HMAC-SHA256","x-amz-credential":"''
     @ key_id @ ''/'' @ ymd @ ''/'' @ region @ ''/'' @ service @ ''/aws4_request",''
     @ ''"x-amz-date":"'' @ ymd @ ''T'' @ hms @ ''Z",''
     @ (case token of
          None \<Rightarrow> []
        | Some tok \<Rightarrow> ''"x-amz-security-token":"'' @ tok @ ''",'')
     @ ''"x-amz-signedheaders":"host","x-amz-expires":"900","x-amz-signature":"''
     @ rd_kafka_aws_build_signature secret region ymd service
         (rd_kafka_aws_build_string_to_sign algorithm
            (ymd @ ''/'' @ region @ ''/'' @ service @ ''/aws4_request'')
            (ymd @ ''T'' @ hms @ ''Z'')
            (rd_kafka_aws_build_canonical_request http_method canonical_querystring
               canonical_headers signed_headers request_parameters digest)
            digest)
     @ ''"}''
   \<and> rd_kafka_aws_build_sasl_canonical_querystring True ''kafka-cluster:Connect''
       ''AWS_ACCESS_KEY_ID'' ''us-east-1'' ''20100101'' ''000000'' ''kafka-cluster'' None =
     Some scenario2_canonical_querystring
   \<and> rd_kafka_aws_build_sasl_canonical_querystring True ''kafka-cluster:Connect''
       ''AWS_ACCESS_KEY_ID'' ''us-east-1'' ''20100101'' ''000000'' ''kafka-cluster''
       (Some ''a/b+c='') =
     Some (''Action=kafka-cluster%3AConnect&X-Amz-Algorithm=AWS4-HMAC-SHA256''
       @ ''&X-Amz-Credential=AWS_ACCESS_KEY_ID%2F20100101%2Fus-east-1%2Fkafka-cluster%2Faws4_request''
       @ ''&X-Amz-Date=20100101T000000Z&X-Amz-Expires=900''
       @ ''&X-Amz-Security-Token=a%2Fb%2Bc%3D&X-Amz-SignedHeaders=host'')\<close>
proof -
  have ex1: "rd_kafka_aws_build_sasl_canonical_querystring True ''kafka-cluster:Connect''
       ''AWS_ACCESS_KEY_ID'' ''us-east-1'' ''20100101'' ''000000'' ''kafka-cluster'' None =
     Some scenario2_canonical_querystring"
    unfolding sasl_canonical_querystring scenario2_canonical_querystring_def
    by (simp add: Curl_isunreserved_def hexdigit_upper_def)
  have ex2: "rd_kafka_aws_build_sasl_canonical_querystring True ''kafka-cluster:Connect''
       ''AWS_ACCESS_KEY_ID'' ''us-east-1'' ''20100101'' ''000000'' ''kafka-cluster''
       (Some ''a/b+c='') =
     Some (''Action=kafka-cluster%3AConnect&X-Amz-Algorithm=AWS4-HMAC-SHA256''
       @ ''&X-Amz-Credential=AWS_ACCESS_KEY_ID%2F20100101%2Fus-east-1%2Fkafka-cluster%2Faws4_request''
       @ ''&X-Amz-Date=20100101T000000Z&X-Amz-Expires=900''
       @ ''&X-Amz-Security-Token=a%2Fb%2Bc%3D&X-Amz-SignedHeaders=host'')"
    unfolding sasl_canonical_querystring
    by (simp add: Curl_isunreserved_def hexdigit_upper_def)
  show ?thesis
    unfolding ex1 ex2
    using sasl_canonical_querystring_fields [of action key_id region ymd hms service token]
      sasl_payload_text [of ymd hms host key_id secret token region service http_method algorithm
        canonical_headers canonical_querystring signed_headers request_parameters digest]
    by simp
qed

section \<open>Creating the per-connection state\<close>

lemma spec_canonical_query_string:
  "rd_kafka_aws_build_sasl_canonical_querystring True ''kafka-cluster:Connect'' key_id region
     ymd hms ''kafka-cluster'' token =
   Some (spec_canonical_query_string key_id region ymd hms token)"
  unfolding sasl_canonical_querystring spec_canonical_query_string_def
  by (simp add: Curl_isunreserved_def hexdigit_upper_def)

lemma build_client_first_message:
  assumes "curl_ok env"
    and "hostname st = Some host" and "st_aws_access_key_id st = Some key_id"
    and "st_aws_secret_access_key st = Some secret" and "st_aws_region st = Some region"
    and "md st = Some digest"
  shows "rd_kafka_sasl_aws_msk_iam_build_client_first_message env st =
           Inr (rd_kafka_aws_build_sasl_payload (utc_ymd env) (utc_hms env) host key_id secret
                  (st_aws_security_token st) region ''kafka-cluster'' ''GET''
                  ''AWS4-HMAC-SHA256'' (''host:'' @ host @ [CHR 0x0A])
                  (spec_canonical_query_string key_id region (utc_ymd env) (utc_hms env)
                     (st_aws_security_token st))
                  ''host'' [] digest)"
  using assms
  by (simp add: rd_kafka_sasl_aws_msk_iam_build_client_first_message_def
      spec_canonical_query_string rd_snprintf_def)

lemma scenario4_payload:
  "rd_kafka_aws_build_sasl_payload ''20100101'' ''000000'' ''hostname'' ''AWS_ACCESS_KEY_ID''
     ''AWS_SECRET_ACCESS_KEY'' None ''us-east-1'' ''kafka-cluster'' ''GET'' ''AWS4-HMAC-SHA256''
     (''host:'' @ ''hostname'' @ [CHR 0x0A])
     (spec_canonical_query_string ''AWS_ACCESS_KEY_ID'' ''us-east-1'' ''20100101'' ''000000'' None)
     ''host'' [] EVP_sha256 =
   scenario4_payload"
proof -
  have q: "spec_canonical_query_string ''AWS_ACCESS_KEY_ID'' ''us-east-1'' ''20100101''
             ''000000'' None = scenario2_canonical_querystring"
    unfolding spec_canonical_query_string_def scenario2_canonical_querystring_def
    by (simp add: Curl_isunreserved_def hexdigit_upper_def)
  have cr: "rd_kafka_aws_build_canonical_request ''GET'' scenario2_canonical_querystring
              (''host:'' @ ''hostname'' @ [CHR 0x0A]) ''host'' [] EVP_sha256 =
            scenario2_canonical_request"
    by (simp add: rd_kafka_aws_build_canonical_request_def SHA256_empty
        scenario2_canonical_request_def)
  have sts: "rd_kafka_aws_build_string_to_sign ''AWS4-HMAC-SHA256''
          (''20100101'' @ ''/'' @ ''us-east-1'' @ ''/'' @ ''kafka-cluster'' @ ''/aws4_request'')
          (''20100101'' @ ''T'' @ ''000000'' @ ''Z'')
          scenario2_canonical_request EVP_sha256 =
        ''AWS4-HMAC-SHA256'' @ [CHR 0x0A] @ ''20100101T000000Z'' @ [CHR 0x0A]
        @ ''20100101/us-east-1/kafka-cluster/aws4_request'' @ [CHR 0x0A]
        @ ''8a719fb6d4b33f7d9c5b25b65af85a44d3627bdca66e1287b1a366fa90bafaa1''"
    by (simp add: rd_kafka_aws_build_string_to_sign_def SHA256_scenario2_canonical_request)
  show ?thesis
    unfolding sasl_payload_text q cr sts scenario2_signature scenario4_payload_def
    by simp
qed

text \<open>
  C8. Creating a per-connection authenticator (the handle present) fails with the error
  \<open>AWS_MSK_IAM cannot log in because there is no credentials available\<close> whenever the access
  key id, the secret access key or the region is absent from the store; with the three present
  it fails with the error \<open>AWS_MSK_IAM_STS cannot authenticate\<close> whenever STS mode is enabled
  and no session token is stored (the checks are made in this order, so a call with STS
  enabled and no token fails in every case); the read lock is taken and released on each of
  these paths. Otherwise the credential fields of the store are copied into the state of the
  connection, the state machine sends the first message built from that copy (with a curl
  handle at hand for the URI encoding) and moves to \<^verbatim>\<open>RECEIVE_SERVER_RESPONSE\<close>, and
  the call returns what the send returns.
\<close>

theorem client_new_outcome:
  assumes "rk_sasl_handle rk = Some handle"
  shows "(h_aws_access_key_id handle = None \<or> h_aws_secret_access_key handle = None
          \<or> h_aws_region handle = None \<longrightarrow>
          rd_kafka_sasl_aws_msk_iam_client_new env rk rktrans host errstr errstr_size =
            Inr (- 1, rk_log [Rwlock_rdlock, Rwlock_rdunlock] rk,
                 rktrans\<lparr>rktrans_sasl_state := Some calloc_state\<rparr>,
                 rd_snprintf errstr errstr_size
                   (''AWS_MSK_IAM cannot log in because there is no credentials available; ''
                    @ ''last error: ''
                    @ (case h_errstr handle of Some e \<Rightarrow> e | None \<Rightarrow> ''(not available)''))))
       \<and> (h_aws_access_key_id handle = Some key_id \<and> h_aws_secret_access_key handle = Some secret
          \<and> h_aws_region handle = Some region
          \<and> rk_enable_use_sts rk \<and> h_aws_security_token handle = None \<longrightarrow>
          rd_kafka_sasl_aws_msk_iam_client_new env rk rktrans host errstr errstr_size =
            Inr (- 1, rk_log [Rwlock_rdlock, Rwlock_rdunlock] rk,
                 rktrans\<lparr>rktrans_sasl_state := Some calloc_state\<rparr>,
                 rd_snprintf errstr errstr_size
                   (''AWS_MSK_IAM_STS cannot authenticate; last error: ''
                    @ (case h_errstr handle of Some e \<Rightarrow> e | None \<Rightarrow> ''(not available)''))))
       \<and> (rk_enable_use_sts rk \<and> h_aws_security_token handle = None \<longrightarrow>
          (\<exists>e. rd_kafka_sasl_aws_msk_iam_client_new env rk rktrans host errstr errstr_size =
            Inr (- 1, rk_log [Rwlock_rdlock, Rwlock_rdunlock] rk,
                 rktrans\<lparr>rktrans_sasl_state := Some calloc_state\<rparr>, e)))
       \<and> (h_aws_access_key_id handle = Some key_id \<and> h_aws_secret_access_key handle = Some secret
          \<and> h_aws_region handle = Some region
          \<and> (rk_enable_use_sts rk \<longrightarrow> h_aws_security_token handle \<noteq> None)
          \<and> curl_ok env \<longrightarrow>
          rd_kafka_sasl_aws_msk_iam_client_new env rk rktrans host errstr errstr_size =
            Inr (fst (sasl_send env
                        (first_message env host key_id secret region
                           (h_aws_security_token handle)) errstr),
                 rk_log [Rwlock_rdlock, Rwlock_rdunlock] rk,
                 rktrans\<lparr>rktrans_sasl_state :=
                    Some \<lparr>state = RD_KAFKA_SASL_AWS_MSK_IAM_RECEIVE_SERVER_RESPONSE,
                          md = Some EVP_sha256, hostname = Some host,
                          st_aws_access_key_id = Some key_id,
                          st_aws_secret_access_key = Some secret,
                          st_aws_region = Some region,
                          st_aws_security_token = h_aws_security_token handle\<rparr>,
                   rktrans_sent := rktrans_sent rktrans
                     @ [first_message env host key_id secret region
                          (h_aws_security_token handle)]\<rparr>,
                 snd (sasl_send env
                        (first_message env host key_id secret region
                           (h_aws_security_token handle)) errstr)))"
proof (intro conjI impI)
  assume "h_aws_access_key_id handle = None \<or> h_aws_secret_access_key handle = None
          \<or> h_aws_region handle = None"
  then show "rd_kafka_sasl_aws_msk_iam_client_new env rk rktrans host errstr errstr_size =
            Inr (- 1, rk_log [Rwlock_rdlock, Rwlock_rdunlock] rk,
                 rktrans\<lparr>rktrans_sasl_state := Some calloc_state\<rparr>,
                 rd_snprintf errstr errstr_size
                   (''AWS_MSK_IAM cannot log in because there is no credentials available; ''
                    @ ''last error: ''
                    @ (case h_errstr handle of Some e \<Rightarrow> e | None \<Rightarrow> ''(not available)'')))"
    using assms by (auto simp add: rd_kafka_sasl_aws_msk_iam_client_new_def)
next
  assume "h_aws_access_key_id handle = Some key_id \<and> h_aws_secret_access_key handle = Some secret
          \<and> h_aws_region handle = Some region
          \<and> rk_enable_use_sts rk \<and> h_aws_security_token handle = None"
  then show "rd_kafka_sasl_aws_msk_iam_client_new env rk rktrans host errstr errstr_size =
            Inr (- 1, rk_log [Rwlock_rdlock, Rwlock_rdunlock] rk,
                 rktrans\<lparr>rktrans_sasl_state := Some calloc_state\<rparr>,
                 rd_snprintf errstr errstr_size
                   (''AWS_MSK_IAM_STS cannot authenticate; last error: ''
                    @ (case h_errstr handle of Some e \<Rightarrow> e | None \<Rightarrow> ''(not available)'')))"
    using assms by (simp add: rd_kafka_sasl_aws_msk_iam_client_new_def)
next
  assume "rk_enable_use_sts rk \<and> h_aws_security_token handle = None"
  then show "\<exists>e. rd_kafka_sasl_aws_msk_iam_client_new env rk rktrans host errstr errstr_size =
            Inr (- 1, rk_log [Rwlock_rdlock, Rwlock_rdunlock] rk,
                 rktrans\<lparr>rktrans_sasl_state := Some calloc_state\<rparr>, e)"
    using assms by (simp add: rd_kafka_sasl_aws_msk_iam_client_new_def)
next
  assume a: "h_aws_access_key_id handle = Some key_id \<and> h_aws_secret_access_key handle = Some secret
          \<and> h_aws_region handle = Some region
          \<and> (rk_enable_use_sts rk \<longrightarrow> h_aws_security_token handle \<noteq> None)
          \<and> curl_ok env"
  let ?st = "\<lparr>state = RD_KAFKA_SASL_AWS_MSK_IAM_SEND_CLIENT_FIRST_MESSAGE,
              md = Some EVP_sha256, hostname = Some host,
              st_aws_access_key_id = Some key_id,
              st_aws_secret_access_key = Some secret,
              st_aws_region = Some region,
              st_aws_security_token = h_aws_security_token handle\<rparr>"
  have m: "rd_kafka_sasl_aws_msk_iam_build_client_first_message env ?st =
           Inr (first_message env host key_id secret region (h_aws_security_token handle))"
    using a build_client_first_message [of env ?st host key_id secret region EVP_sha256]
    by (simp add: first_message_def)
  have c1: "\<not> (h_aws_access_key_id handle = None \<or> h_aws_secret_access_key handle = None
          \<or> h_aws_region handle = None)"
    using a by simp
  have c2: "\<not> (rk_enable_use_sts rk \<and> h_aws_security_token handle = None)"
    using a by simp
  show "rd_kafka_sasl_aws_msk_iam_client_new env rk rktrans host errstr errstr_size =
            Inr (fst (sasl_send env
                        (first_message env host key_id secret region
                           (h_aws_security_token handle)) errstr),
                 rk_log [Rwlock_rdlock, Rwlock_rdunlock] rk,
                 rktrans\<lparr>rktrans_sasl_state :=
                    Some \<lparr>state = RD_KAFKA_SASL_AWS_MSK_IAM_RECEIVE_SERVER_RESPONSE,
                          md = Some EVP_sha256, hostname = Some host,
                          st_aws_access_key_id = Some key_id,
                          st_aws_secret_access_key = Some secret,
                          st_aws_region = Some region,
                          st_aws_security_token = h_aws_security_token handle\<rparr>,
                   rktrans_sent := rktrans_sent rktrans
                     @ [first_message env host key_id secret region
                          (h_aws_security_token handle)]\<rparr>,
                 snd (sasl_send env
                        (first_message env host key_id secret region
                           (h_aws_security_token handle)) errstr))"
    using a
    by (simp add: rd_kafka_sasl_aws_msk_iam_client_new_def assms c1 c2
        rd_kafka_sasl_aws_msk_iam_fsm_def calloc_state_def m del: de_Morgan_disj de_Morgan_conj)
qed

text \<open>A store without a region; the store of scenario 2 with STS mode on and no token; the
  same store with STS mode off, where the frame sent is the payload of scenario 4.\<close>

theorem client_new_outcome_witness:
  "rd_kafka_sasl_aws_msk_iam_client_new ex_env
       (ex_rk\<lparr>rk_sasl_handle := Some (ex_handle\<lparr>h_aws_region := None\<rparr>)\<rparr>)
       ex_rktrans_new ''hostname'' [] 512 =
     Inr (- 1,
          ex_rk\<lparr>rk_sasl_handle := Some (ex_handle\<lparr>h_aws_region := None\<rparr>),
                rk_events := [Rwlock_rdlock, Rwlock_rdunlock]\<rparr>,
          ex_rktrans_new\<lparr>rktrans_sasl_state := Some calloc_state\<rparr>,
          ''AWS_MSK_IAM cannot log in because there is no credentials available; ''
          @ ''last error: timeout'')
   \<and> rd_kafka_sasl_aws_msk_iam_client_new ex_env ex_rk ex_rktrans_new ''hostname'' [] 512 =
     Inr (- 1, ex_rk\<lparr>rk_events := [Rwlock_rdlock, Rwlock_rdunlock]\<rparr>,
          ex_rktrans_new\<lparr>rktrans_sasl_state := Some calloc_state\<rparr>,
          ''AWS_MSK_IAM_STS cannot authenticate; last error: timeout'')
   \<and> rd_kafka_sasl_aws_msk_iam_client_new ex_env (ex_rk\<lparr>rk_enable_use_sts := False\<rparr>)
       ex_rktrans_new ''hostname'' [] 512 =
     Inr (0,
          ex_rk\<lparr>rk_enable_use_sts := False, rk_events := [Rwlock_rdlock, Rwlock_rdunlock]\<rparr>,
          \<lparr>rktrans_sasl_state =
             Some \<lparr>state = RD_KAFKA_SASL_AWS_MSK_IAM_RECEIVE_SERVER_RESPONSE,
                   md = Some EVP_sha256, hostname = Some ''hostname'',
                   st_aws_access_key_id = Some ''AWS_ACCESS_KEY_ID'',
                   st_aws_secret_access_key = Some ''AWS_SECRET_ACCESS_KEY'',
                   st_aws_region = Some ''us-east-1'', st_aws_security_token = None\<rparr>,
           rktrans_auth_done = False, rktrans_sent = [scenario4_payload]\<rparr>,
          [])"
  using client_new_outcome [where rk = "ex_rk\<lparr>rk_sasl_handle := Some (ex_handle\<lparr>h_aws_region := None\<rparr>)\<rparr>"
      and handle = "ex_handle\<lparr>h_aws_region := None\<rparr>" and env = ex_env
      and rktrans = ex_rktrans_new and host = "''hostname''" and errstr = "[]"
      and errstr_size = 512]
    client_new_outcome [where rk = ex_rk and handle = ex_handle and env = ex_env
      and rktrans = ex_rktrans_new and host = "''hostname''" and errstr = "[]"
      and errstr_size = 512 and key_id = "''AWS_ACCESS_KEY_ID''"
      and secret = "''AWS_SECRET_ACCESS_KEY''" and region = "''us-east-1''"]
    client_new_outcome [where rk = "ex_rk\<lparr>rk_enable_use_sts := False\<rparr>" and handle = ex_handle
      and env = ex_env and rktrans = ex_rktrans_new and host = "''hostname''" and errstr = "[]"
      and errstr_size = 512 and key_id = "''AWS_ACCESS_KEY_ID''"
      and secret = "''AWS_SECRET_ACCESS_KEY''" and region = "''us-east-1''"]
    scenario4_payload
  by (simp add: ex_rk_def ex_handle_def ex_env_def ex_rktrans_new_def rk_log_def
      rd_snprintf_def first_message_def)

section \<open>The expiry of a refreshed credential\<close>













end
